theory Spec2Isabelle
  imports Main "HOL-Library.Word"
begin

unbundle bit_operations_syntax

section \<open>NA mask support of the NumPy array (na\_mask.c)\<close>

text \<open>
  The development embeds \<^verbatim>\<open>numpy/core/src/multiarray/na_mask.c\<close>: the query
  \<^verbatim>\<open>PyArray_HasNASupport\<close>, the scan \<^verbatim>\<open>PyArray_ContainsNA\<close> and the allocator
  \<^verbatim>\<open>PyArray_AllocateMaskNA\<close>.

  Conventions of the embedding.
  \<^item> \<^verbatim>\<open>npy_intp\<close> is the 64-bit signed integer. Its values (extents, strides, byte
    counts) are integers, and every product the C code forms in \<^verbatim>\<open>npy_intp\<close> is reduced
    to the 64-bit two's complement range by \<open>npy_intp_wrap\<close>, as the machine
    multiplication does. NumPy creates an array only when the product of its non-zero
    extents fits \<^verbatim>\<open>npy_intp\<close>; this bound is part of \<open>wf_array\<close>, and the properties
    below are stated for arrays that satisfy it.
  \<^item> Memory is a store from byte addresses to bytes; a \<^verbatim>\<open>char *\<close> is an address and
    \<^verbatim>\<open>NULL\<close> is address 0. Both mask element types are one byte wide, so a mask cell is
    one byte of the store.
  \<^item> The C function reports failure by returning -1 with a Python exception set; the
    model returns \<open>Inl\<close> of the exception, and \<open>Inr ()\<close> for the return value 0, together
    with the store and the array as they are at the return.
  \<^item> Reference counts of descriptors are not modelled.
\<close>

subsection \<open>Arrays, descriptors, memory\<close>

type_synonym heap = "int \<Rightarrow> 8 word"

text \<open>The two type numbers the file uses for mask elements.\<close>

datatype NPY_TYPES = NPY_BOOL | NPY_MASK

record PyArray_Descr =
  type_num :: NPY_TYPES
  elsize :: int

text \<open>
  The facet of \<^verbatim>\<open>PyArrayObject_fieldaccess\<close> that the file reads and writes.
  \<open>hasfields\<close> is the value of \<^verbatim>\<open>PyArray_HASFIELDS(arr)\<close>; a \<^verbatim>\<open>NULL\<close> mask descriptor
  is \<open>None\<close>.
\<close>

record PyArrayObject =
  nd :: int
  dimensions :: "int list"
  strides :: "int list"
  flags :: "32 word"
  hasfields :: bool
  maskna_dtype :: "PyArray_Descr option"
  maskna_data :: int
  maskna_strides :: "int list"

text \<open>
  The store together with the base addresses of the blocks handed out by
  \<^verbatim>\<open>PyArray_malloc\<close> and not yet given back.
\<close>

record world =
  mem :: heap
  live :: "int set"

datatype error = RuntimeError | MemoryError | DescrError | CastError

text \<open>
  The collaborators' answers during one call: whether the descriptor registry delivers
  the mask descriptor, the address the allocator returns (0 for \<^verbatim>\<open>NULL\<close>), and whether
  the cast primitive succeeds.
\<close>

record env =
  descr_avail :: bool
  malloc_ret :: int
  cast_ok :: bool

text \<open>
  The flag bits, from \<^verbatim>\<open>ndarraytypes.h\<close> (a header outside the embedded file): two
  distinct single bits.
\<close>

definition NPY_ARRAY_MASKNA :: "32 word" where
  "NPY_ARRAY_MASKNA = 0x20000000"

definition NPY_ARRAY_OWNMASKNA :: "32 word" where
  "NPY_ARRAY_OWNMASKNA = 0x40000000"

definition PyArray_HASMASKNA :: "PyArrayObject \<Rightarrow> bool" where
  "PyArray_HASMASKNA arr \<longleftrightarrow> flags arr AND NPY_ARRAY_MASKNA \<noteq> 0"

text \<open>The result of an \<^verbatim>\<open>npy_intp\<close> operation: the value modulo \<open>2 ^ 64\<close>, read as signed.\<close>

definition npy_intp_wrap :: "int \<Rightarrow> int" where
  "npy_intp_wrap x = (x + 2 ^ 63) mod 2 ^ 64 - 2 ^ 63"

text \<open>
  \<^verbatim>\<open>PyArray_SIZE\<close>: the first \<open>nd\<close> extents multiplied one after the other into an
  \<^verbatim>\<open>npy_intp\<close> that starts at 1.
\<close>

definition PyArray_SIZE :: "PyArrayObject \<Rightarrow> int" where
  "PyArray_SIZE arr =
     foldl (\<lambda>s d. npy_intp_wrap (s * d)) 1 (take (nat (nd arr)) (dimensions arr))"

subsection \<open>Collaborators\<close>

text \<open>
  Modelled from the spec: \<^verbatim>\<open>PyArray_DescrFromType\<close> (the descriptor registry is not part
  of the embedded file). The Boolean representation is one byte per element and the
  MultiNA representation is byte-sized.
\<close>

definition PyArray_DescrFromType :: "env \<Rightarrow> NPY_TYPES \<Rightarrow> PyArray_Descr option" where
  "PyArray_DescrFromType e t =
     (if descr_avail e then Some \<lparr>type_num = t, elsize = 1\<rparr> else None)"

definition PyArray_malloc :: "env \<Rightarrow> int \<Rightarrow> world \<Rightarrow> int \<times> world" where
  "PyArray_malloc e n w =
     (if malloc_ret e = 0 then (0, w)
      else (malloc_ret e, w\<lparr>live := insert (malloc_ret e) (live w)\<rparr>))"

definition PyArray_free :: "int \<Rightarrow> world \<Rightarrow> world" where
  "PyArray_free p w = w\<lparr>live := live w - {p}\<rparr>"

definition memcpy :: "int \<Rightarrow> int \<Rightarrow> int \<Rightarrow> heap \<Rightarrow> heap" where
  "memcpy dst src n m = (\<lambda>a. if dst \<le> a \<and> a < dst + n then m (src + (a - dst)) else m a)"

definition memset :: "int \<Rightarrow> 8 word \<Rightarrow> int \<Rightarrow> heap \<Rightarrow> heap" where
  "memset p c n m = (\<lambda>a. if p \<le> a \<and> a < p + n then c else m a)"

text \<open>
  Modelled from the spec: the conversion of one mask cell by the cast primitive (the
  casting machinery is not part of the embedded file). A Boolean cell is restricted to
  0 and 1; a MultiNA cell is NA when 0 and available when nonzero. The cast preserves
  the value, hence a MultiNA cell cast to Boolean becomes 0 when it is 0 and 1 otherwise;
  every other combination keeps the byte.
\<close>

definition cast_value :: "NPY_TYPES \<Rightarrow> NPY_TYPES \<Rightarrow> 8 word \<Rightarrow> 8 word" where
  "cast_value src_t dst_t v =
     (if dst_t = NPY_BOOL \<and> src_t \<noteq> NPY_BOOL then (if v = 0 then 0 else 1) else v)"

text \<open>
  Modelled from the spec: \<^verbatim>\<open>PyArray_CastRawArrays\<close>, the strided element-wise cast of
  \<open>count\<close> cells, element \<open>i\<close> of the source to element \<open>i\<close> of the destination, one
  after the other. A failure (\<open>None\<close>) leaves the store as it is.
\<close>

definition PyArray_CastRawArrays ::
  "env \<Rightarrow> int \<Rightarrow> int \<Rightarrow> int \<Rightarrow> int \<Rightarrow> int \<Rightarrow> PyArray_Descr option \<Rightarrow> PyArray_Descr \<Rightarrow>
   heap \<Rightarrow> heap option" where
  "PyArray_CastRawArrays e count src dst src_stride dst_stride src_dtype dst_dtype m =
     (case src_dtype of
        None \<Rightarrow> None
      | Some sd \<Rightarrow>
          if \<not> cast_ok e then None
          else Some (foldl
            (\<lambda>h i. h(dst + i * dst_stride :=
                       cast_value (type_num sd) (type_num dst_dtype) (h (src + i * src_stride))))
            m [0..count - 1]))"

text \<open>All index tuples of a shape, in logical (row-major) axis order.\<close>

fun indices :: "int list \<Rightarrow> int list list" where
  "indices [] = [[]]"
| "indices (d # ds) = concat (map (\<lambda>i. map ((#) i) (indices ds)) [0..d - 1])"

text \<open>The byte offset of an index tuple under a list of strides.\<close>

definition offset :: "int list \<Rightarrow> int list \<Rightarrow> int" where
  "offset strds idx = sum_list (map2 (*) idx strds)"

text \<open>
  Modelled from the spec: \<^verbatim>\<open>PyArray_CastRawNDimArrays\<close>, the N-dimensional strided
  element-wise cast, iterating in logical axis order.
\<close>

definition PyArray_CastRawNDimArrays ::
  "env \<Rightarrow> int \<Rightarrow> int list \<Rightarrow> int \<Rightarrow> int \<Rightarrow> int list \<Rightarrow> int list \<Rightarrow>
   PyArray_Descr option \<Rightarrow> PyArray_Descr \<Rightarrow> heap \<Rightarrow> heap option" where
  "PyArray_CastRawNDimArrays e ndim shape src dst src_strides dst_strides src_dtype dst_dtype m =
     (case src_dtype of
        None \<Rightarrow> None
      | Some sd \<Rightarrow>
          if \<not> cast_ok e then None
          else Some (foldl
            (\<lambda>h idx. h(dst + offset dst_strides idx :=
                         cast_value (type_num sd) (type_num dst_dtype)
                           (h (src + offset src_strides idx))))
            m (indices (take (nat ndim) shape))))"

text \<open>
  Modelled from the spec: \<^verbatim>\<open>PyArray_CreateSortedStridePerm\<close> (defined in shape.c, not
  part of the embedded file). The items \<open>(axis, stride)\<close> are ordered by absolute stride;
  the allocator walks the result from its last item to its first and the spec has it
  walk from the smallest stride to the largest, so the order is descending. Ties keep
  the order of the axes (the sort is stable).
\<close>

record npy_stride_sort_item =
  perm :: nat
  stride :: int

definition PyArray_CreateSortedStridePerm :: "nat \<Rightarrow> int list \<Rightarrow> npy_stride_sort_item list" where
  "PyArray_CreateSortedStridePerm ndim strds =
     sort_key (\<lambda>it. - \<bar>stride it\<bar>) (map (\<lambda>i. \<lparr>perm = i, stride = strds ! i\<rparr>) [0..<ndim])"

subsection \<open>The functions of na\_mask.c\<close>

definition PyArray_HasNASupport :: "PyArrayObject \<Rightarrow> bool" where
  "PyArray_HasNASupport arr = PyArray_HASMASKNA arr"

text \<open>The scan is a stub in the source: both paths return 0.\<close>

definition PyArray_ContainsNA :: "world \<Rightarrow> PyArrayObject \<Rightarrow> bool" where
  "PyArray_ContainsNA w arr = (if \<not> PyArray_HasNASupport arr then False else False)"

text \<open>
  The loop \<^verbatim>\<open>for (i = nd-1; i >= 0; --i)\<close> of the allocator: \<open>stride_loop (Suc i)\<close> runs
  the iteration for index \<open>i\<close> and then the iterations below it.
\<close>

fun stride_loop ::
  "nat \<Rightarrow> npy_stride_sort_item list \<Rightarrow> int list \<Rightarrow> int \<Rightarrow> int list \<Rightarrow> int list" where
  "stride_loop 0 strideperm shape strd maskna_strds = maskna_strds"
| "stride_loop (Suc i) strideperm shape strd maskna_strds =
     (let i_perm = perm (strideperm ! i)
      in stride_loop i strideperm shape (npy_intp_wrap (strd * shape ! i_perm))
           (maskna_strds[i_perm := strd]))"

text \<open>
  The local array \<^verbatim>\<open>maskna_strides\<close> of the branch \<open>nd > 1\<close> after the loop. The C array
  starts uninitialised; the model starts it with zeros (the loop overwrites each of the
  first \<open>nd\<close> entries, see \<open>new_maskna_strides_nth\<close> below).
\<close>

definition new_maskna_strides :: "PyArrayObject \<Rightarrow> PyArray_Descr \<Rightarrow> int list" where
  "new_maskna_strides fa maskna_dtype' =
     stride_loop (nat (nd fa))
       (PyArray_CreateSortedStridePerm (nat (nd fa)) (strides fa))
       (dimensions fa) (elsize maskna_dtype') (replicate (nat (nd fa)) 0)"

text \<open>The final statements of the allocator: install descriptor, buffer and flags.\<close>

definition install_mask :: "PyArray_Descr \<Rightarrow> int \<Rightarrow> PyArrayObject \<Rightarrow> PyArrayObject" where
  "install_mask maskna_dtype' maskna_data' fa =
     fa\<lparr>maskna_dtype := Some maskna_dtype',
        maskna_data := maskna_data',
        flags := flags fa OR (NPY_ARRAY_MASKNA OR NPY_ARRAY_OWNMASKNA)\<rparr>"

text \<open>The branch \<open>nd == 1\<close>, entered with the new buffer allocated.\<close>

definition allocate_1d ::
  "env \<Rightarrow> world \<Rightarrow> PyArrayObject \<Rightarrow> PyArray_Descr \<Rightarrow> int \<Rightarrow> int \<Rightarrow>
   (error + unit) \<times> world \<times> PyArrayObject" where
  "allocate_1d e w fa maskna_dtype' maskna_data' size' =
     (let commit = (\<lambda>h. (Inr (), w\<lparr>mem := h\<rparr>,
            install_mask maskna_dtype' maskna_data'
              (fa\<lparr>maskna_strides := (maskna_strides fa)[0 := elsize maskna_dtype']\<rparr>)))
      in
      if flags fa AND NPY_ARRAY_MASKNA \<noteq> 0 then
        if maskna_strides fa ! 0 = 1 then
          commit (memcpy maskna_data' (maskna_data fa)
                    (npy_intp_wrap (size' * elsize maskna_dtype')) (mem w))
        else
          (case PyArray_CastRawArrays e (dimensions fa ! 0)
                  (maskna_data fa) maskna_data'
                  (maskna_strides fa ! 0) (elsize maskna_dtype')
                  (maskna_dtype fa) maskna_dtype' (mem w) of
             None \<Rightarrow> (Inl CastError, PyArray_free maskna_data' w, fa)
           | Some h \<Rightarrow> commit h)
      else
        commit (memset maskna_data' 1 (npy_intp_wrap (size' * elsize maskna_dtype')) (mem w)))"

text \<open>The branch \<open>nd > 1\<close>.\<close>

definition allocate_nd ::
  "env \<Rightarrow> world \<Rightarrow> PyArrayObject \<Rightarrow> PyArray_Descr \<Rightarrow> int \<Rightarrow> int \<Rightarrow>
   (error + unit) \<times> world \<times> PyArrayObject" where
  "allocate_nd e w fa maskna_dtype' maskna_data' size' =
     (let new_strides = new_maskna_strides fa maskna_dtype';
          commit = (\<lambda>h. (Inr (), w\<lparr>mem := h\<rparr>,
            install_mask maskna_dtype' maskna_data'
              (fa\<lparr>maskna_strides :=
                    take (nat (nd fa)) new_strides @ drop (nat (nd fa)) (maskna_strides fa)\<rparr>)))
      in
      if flags fa AND NPY_ARRAY_MASKNA \<noteq> 0 then
        (case PyArray_CastRawNDimArrays e (nd fa) (dimensions fa)
                (maskna_data fa) maskna_data'
                (maskna_strides fa) new_strides
                (maskna_dtype fa) maskna_dtype' (mem w) of
           None \<Rightarrow> (Inl CastError, PyArray_free maskna_data' w, fa)
         | Some h \<Rightarrow> commit h)
      else
        commit (memset maskna_data' 1 (npy_intp_wrap (size' * elsize maskna_dtype')) (mem w)))"

text \<open>The last branch (rank 0): one cell, copied or set to 1.\<close>

definition allocate_0d ::
  "world \<Rightarrow> PyArrayObject \<Rightarrow> PyArray_Descr \<Rightarrow> int \<Rightarrow>
   (error + unit) \<times> world \<times> PyArrayObject" where
  "allocate_0d w fa maskna_dtype' maskna_data' =
     (let commit = (\<lambda>h. (Inr (), w\<lparr>mem := h\<rparr>, install_mask maskna_dtype' maskna_data' fa))
      in
      if flags fa AND NPY_ARRAY_MASKNA \<noteq> 0 then
        commit ((mem w)(maskna_data' := mem w (maskna_data fa)))
      else
        commit ((mem w)(maskna_data' := 1)))"

definition PyArray_AllocateMaskNA ::
  "env \<Rightarrow> world \<Rightarrow> PyArrayObject \<Rightarrow> bool \<Rightarrow> bool \<Rightarrow>
   (error + unit) \<times> world \<times> PyArrayObject" where
  "PyArray_AllocateMaskNA e w fa ownmaskna multina =
     (if flags fa AND NPY_ARRAY_OWNMASKNA \<noteq> 0 then (Inr (), w, fa)
      else if \<not> ownmaskna \<and> flags fa AND NPY_ARRAY_MASKNA \<noteq> 0 then (Inr (), w, fa)
      else
        let size' = PyArray_SIZE fa in
        if hasfields fa then (Inl RuntimeError, w, fa)
        else
          (case PyArray_DescrFromType e (if multina then NPY_MASK else NPY_BOOL) of
             None \<Rightarrow> (Inl DescrError, w, fa)
           | Some maskna_dtype' \<Rightarrow>
               (case PyArray_malloc e (npy_intp_wrap (size' * elsize maskna_dtype')) w of
                  (maskna_data', w1) \<Rightarrow>
                    if maskna_data' = 0 then (Inl MemoryError, w1, fa)
                    else if nd fa = 1 then allocate_1d e w1 fa maskna_dtype' maskna_data' size'
                    else if nd fa > 1 then allocate_nd e w1 fa maskna_dtype' maskna_data' size'
                    else allocate_0d w1 fa maskna_dtype' maskna_data')))"

subsection \<open>Notions used to state the properties\<close>

text \<open>
  The allocator from the point where the early exits, the field check, the descriptor
  lookup and the allocation are behind it (see \<open>AllocateMaskNA_cases\<close>).
\<close>

definition allocate_body ::
  "env \<Rightarrow> world \<Rightarrow> PyArrayObject \<Rightarrow> bool \<Rightarrow> (error + unit) \<times> world \<times> PyArrayObject" where
  "allocate_body e w fa multina =
     (let d = \<lparr>type_num = (if multina then NPY_MASK else NPY_BOOL), elsize = 1\<rparr>;
          w1 = w\<lparr>live := insert (malloc_ret e) (live w)\<rparr>
      in if nd fa = 1 then allocate_1d e w1 fa d (malloc_ret e) (PyArray_SIZE fa)
         else if nd fa > 1 then allocate_nd e w1 fa d (malloc_ret e) (PyArray_SIZE fa)
         else allocate_0d w1 fa d (malloc_ret e))"

text \<open>
  The shape of an array: its first \<open>nd\<close> extents. An array is well formed when its rank
  is not negative, its three per-axis sequences have one entry per axis, no extent is
  negative, and the product of its non-zero extents fits \<^verbatim>\<open>npy_intp\<close> (NumPy refuses to
  create an array beyond that bound).
\<close>

definition shape_of :: "PyArrayObject \<Rightarrow> int list" where
  "shape_of fa = take (nat (nd fa)) (dimensions fa)"

definition wf_array :: "PyArrayObject \<Rightarrow> bool" where
  "wf_array fa \<longleftrightarrow>
     0 \<le> nd fa \<and> length (dimensions fa) = nat (nd fa) \<and> length (strides fa) = nat (nd fa) \<and>
     length (maskna_strides fa) = nat (nd fa) \<and> list_all (\<lambda>d. 0 \<le> d) (dimensions fa) \<and>
     prod_list (map (\<lambda>d. if d = 0 then 1 else d) (dimensions fa)) < 2 ^ 63"

text \<open>The address of the mask cell of a logical element, and whether the cell says NA.\<close>

definition mask_cell :: "PyArrayObject \<Rightarrow> int list \<Rightarrow> int" where
  "mask_cell fa idx = maskna_data fa + offset (maskna_strides fa) idx"

definition is_NA :: "world \<Rightarrow> PyArrayObject \<Rightarrow> int list \<Rightarrow> bool" where
  "is_NA w fa idx \<longleftrightarrow> mem w (mask_cell fa idx) = 0"

text \<open>
  The contract of the scan in the words of the spec: some logical element's mask cell,
  found through the mask strides, denotes NA.
\<close>

definition spec_ContainsNA :: "world \<Rightarrow> PyArrayObject \<Rightarrow> bool" where
  "spec_ContainsNA w fa \<longleftrightarrow>
     PyArray_HasNASupport fa \<and> list_ex (is_NA w fa) (indices (shape_of fa))"

text \<open>
  Index tuples within a shape; the loop over the sorted strides restated as a recursion
  over the list of axes in the order the loop visits them; and the value of a
  mixed-radix numeral, least significant digit first.
\<close>

definition in_shape :: "int list \<Rightarrow> int list \<Rightarrow> bool" where
  "in_shape idx shape \<longleftrightarrow> list_all2 (\<lambda>i d. 0 \<le> i \<and> i < d) idx shape"

fun place :: "nat list \<Rightarrow> int list \<Rightarrow> int \<Rightarrow> int list \<Rightarrow> int list" where
  "place [] shape strd ms = ms"
| "place (a # as) shape strd ms = place as shape (strd * shape ! a) (ms[a := strd])"

fun radix :: "int list \<Rightarrow> int list \<Rightarrow> int" where
  "radix (d # ds) (s # ss) = d + s * radix ds ss"
| "radix _ _ = 0"

text \<open>The axes of an array in the order in which the loop assigns their mask strides.\<close>

definition walk_order :: "PyArrayObject \<Rightarrow> nat list" where
  "walk_order fa =
     rev (map perm (PyArray_CreateSortedStridePerm (nat (nd fa)) (strides fa)))"

subsection \<open>Concrete inputs\<close>

definition env_ok :: env where
  "env_ok = \<lparr>descr_avail = True, malloc_ret = 1000, cast_ok = True\<rparr>"

definition env_nocast :: env where
  "env_nocast = \<lparr>descr_avail = True, malloc_ret = 1000, cast_ok = False\<rparr>"

definition bool_descr :: PyArray_Descr where
  "bool_descr = \<lparr>type_num = NPY_BOOL, elsize = 1\<rparr>"

definition mask_descr :: PyArray_Descr where
  "mask_descr = \<lparr>type_num = NPY_MASK, elsize = 1\<rparr>"

text \<open>A store whose bytes 500 and 502 hold 1 and 2, every other byte 0.\<close>

definition world0 :: world where
  "world0 = \<lparr>mem = (\<lambda>a. if a = 500 then 1 else if a = 502 then 2 else 0), live = {}\<rparr>"

text \<open>A 2 x 3 row-major array of 8-byte items without a mask.\<close>

definition ex_nomask :: PyArrayObject where
  "ex_nomask = \<lparr>nd = 2, dimensions = [2, 3], strides = [24, 8], flags = 0, hasfields = False,
     maskna_dtype = None, maskna_data = 0, maskna_strides = [0, 0]\<rparr>"

text \<open>
  One-dimensional arrays of two elements with a borrowed mask at address 500: a
  contiguous Boolean mask holding 1, 0; a Boolean mask of stride 2 holding 1, 2; a
  contiguous MultiNA mask holding 2, 0 (at address 502).
\<close>

definition ex_borrowed :: PyArrayObject where
  "ex_borrowed = \<lparr>nd = 1, dimensions = [2], strides = [8], flags = NPY_ARRAY_MASKNA,
     hasfields = False, maskna_dtype = Some bool_descr, maskna_data = 500,
     maskna_strides = [1]\<rparr>"

definition ex_strided :: PyArrayObject where
  "ex_strided = \<lparr>nd = 1, dimensions = [2], strides = [8], flags = NPY_ARRAY_MASKNA,
     hasfields = False, maskna_dtype = Some mask_descr, maskna_data = 500,
     maskna_strides = [2]\<rparr>"

definition ex_multina :: PyArrayObject where
  "ex_multina = \<lparr>nd = 1, dimensions = [2], strides = [8], flags = NPY_ARRAY_MASKNA,
     hasfields = False, maskna_dtype = Some mask_descr, maskna_data = 502,
     maskna_strides = [1]\<rparr>"

text \<open>Arrays of a structured type: one without a mask, one that owns a mask.\<close>

definition ex_fields :: PyArrayObject where
  "ex_fields = \<lparr>nd = 1, dimensions = [2], strides = [8], flags = 0, hasfields = True,
     maskna_dtype = None, maskna_data = 0, maskna_strides = [0]\<rparr>"

definition ex_fields_owned :: PyArrayObject where
  "ex_fields_owned = \<lparr>nd = 1, dimensions = [2], strides = [8],
     flags = NPY_ARRAY_MASKNA OR NPY_ARRAY_OWNMASKNA, hasfields = True,
     maskna_dtype = Some bool_descr, maskna_data = 500, maskna_strides = [1]\<rparr>"

text \<open>
  A 3 x 0 array (no elements) whose second axis has the smaller data stride, such as the
  slice \<^verbatim>\<open>a[:, 0:0]\<close> of a 3 x 2 array of 4-byte items.
\<close>

definition ex_empty :: PyArrayObject where
  "ex_empty = \<lparr>nd = 2, dimensions = [3, 0], strides = [8, 4], flags = 0, hasfields = False,
     maskna_dtype = None, maskna_data = 0, maskna_strides = [0, 0]\<rparr>"

text \<open>
  A 2 x 3 x 4 array in column-major order (data strides ascending with the axis), and a
  2 x 2 column-major array with a borrowed MultiNA mask in row-major layout at address
  500 (cells 1, 0, 2, 0 for the elements (0,0), (0,1), (1,0), (1,1)).
\<close>

definition ex_fortran :: PyArrayObject where
  "ex_fortran = \<lparr>nd = 3, dimensions = [2, 3, 4], strides = [8, 16, 48], flags = 0,
     hasfields = False, maskna_dtype = None, maskna_data = 0, maskna_strides = [0, 0, 0]\<rparr>"

definition ex_transposed :: PyArrayObject where
  "ex_transposed = \<lparr>nd = 2, dimensions = [2, 2], strides = [8, 16], flags = NPY_ARRAY_MASKNA,
     hasfields = False, maskna_dtype = Some mask_descr, maskna_data = 500,
     maskna_strides = [2, 1]\<rparr>"

text \<open>
  An array beyond the bound of \<open>wf_array\<close>: extents 2, \<open>2 ^ 62\<close> and 4, whose product
  does not fit \<^verbatim>\<open>npy_intp\<close>.
\<close>

definition ex_huge :: PyArrayObject where
  "ex_huge = \<lparr>nd = 3, dimensions = [2, 4611686018427387904, 4], strides = [16, 8, 0],
     flags = 0, hasfields = False, maskna_dtype = None, maskna_data = 0,
     maskna_strides = [0, 0, 0]\<rparr>"

section \<open>The control structure of the allocator\<close>

lemma flag_own_set:
  "(f OR (NPY_ARRAY_MASKNA OR NPY_ARRAY_OWNMASKNA)) AND NPY_ARRAY_OWNMASKNA \<noteq> 0"
proof -
  have "bit ((f OR (NPY_ARRAY_MASKNA OR NPY_ARRAY_OWNMASKNA)) AND NPY_ARRAY_OWNMASKNA) 30"
    by (simp add: bit_and_iff bit_or_iff NPY_ARRAY_MASKNA_def NPY_ARRAY_OWNMASKNA_def)
  then show ?thesis by auto
qed

lemma flag_mask_set:
  "(f OR (NPY_ARRAY_MASKNA OR NPY_ARRAY_OWNMASKNA)) AND NPY_ARRAY_MASKNA \<noteq> 0"
proof -
  have "bit ((f OR (NPY_ARRAY_MASKNA OR NPY_ARRAY_OWNMASKNA)) AND NPY_ARRAY_MASKNA) 29"
    by (simp add: bit_and_iff bit_or_iff NPY_ARRAY_MASKNA_def NPY_ARRAY_OWNMASKNA_def)
  then show ?thesis by auto
qed

lemma install_mask_flags:
  "flags (install_mask d p fa) AND NPY_ARRAY_MASKNA \<noteq> 0"
  "flags (install_mask d p fa) AND NPY_ARRAY_OWNMASKNA \<noteq> 0"
  by (simp_all add: install_mask_def flag_own_set flag_mask_set)

lemma install_mask_fields [simp]:
  "maskna_data (install_mask d p fa) = p"
  "maskna_dtype (install_mask d p fa) = Some d"
  "maskna_strides (install_mask d p fa) = maskna_strides fa"
  "nd (install_mask d p fa) = nd fa"
  "dimensions (install_mask d p fa) = dimensions fa"
  "strides (install_mask d p fa) = strides fa"
  by (simp_all add: install_mask_def)

lemma AllocateMaskNA_past_exits:
  assumes "flags fa AND NPY_ARRAY_OWNMASKNA = 0"
    and "ownmaskna \<or> flags fa AND NPY_ARRAY_MASKNA = 0"
    and "\<not> hasfields fa" and "descr_avail e" and "malloc_ret e \<noteq> 0"
  shows "PyArray_AllocateMaskNA e w fa ownmaskna multina = allocate_body e w fa multina"
  using assms
  by (auto simp: PyArray_AllocateMaskNA_def allocate_body_def Let_def
        PyArray_DescrFromType_def PyArray_malloc_def)

text \<open>
  Every call takes one of three courses: an early exit; a failure before the buffer
  exists (fields, descriptor, allocation), which returns store and array as they were; or
  the body after a successful allocation.
\<close>

lemma AllocateMaskNA_cases:
  obtains
    (early) "flags fa AND NPY_ARRAY_OWNMASKNA \<noteq> 0 \<or>
             \<not> ownmaskna \<and> flags fa AND NPY_ARRAY_MASKNA \<noteq> 0"
            "PyArray_AllocateMaskNA e w fa ownmaskna multina = (Inr (), w, fa)"
  | (failed) err where "flags fa AND NPY_ARRAY_OWNMASKNA = 0"
            "ownmaskna \<or> flags fa AND NPY_ARRAY_MASKNA = 0"
            "PyArray_AllocateMaskNA e w fa ownmaskna multina = (Inl err, w, fa)"
  | (alloc) "flags fa AND NPY_ARRAY_OWNMASKNA = 0"
            "ownmaskna \<or> flags fa AND NPY_ARRAY_MASKNA = 0"
            "\<not> hasfields fa" "descr_avail e" "malloc_ret e \<noteq> 0"
            "PyArray_AllocateMaskNA e w fa ownmaskna multina = allocate_body e w fa multina"
proof (cases "flags fa AND NPY_ARRAY_OWNMASKNA \<noteq> 0 \<or>
             \<not> ownmaskna \<and> flags fa AND NPY_ARRAY_MASKNA \<noteq> 0")
  case True
  then have "PyArray_AllocateMaskNA e w fa ownmaskna multina = (Inr (), w, fa)"
    by (auto simp: PyArray_AllocateMaskNA_def)
  with True show ?thesis by (rule early)
next
  case False
  then have no: "flags fa AND NPY_ARRAY_OWNMASKNA = 0"
    "ownmaskna \<or> flags fa AND NPY_ARRAY_MASKNA = 0" by auto
  show ?thesis
  proof (cases "\<not> hasfields fa \<and> descr_avail e \<and> malloc_ret e \<noteq> 0")
    case True
    with no have "PyArray_AllocateMaskNA e w fa ownmaskna multina = allocate_body e w fa multina"
      by (simp add: AllocateMaskNA_past_exits)
    with no True show ?thesis by (auto intro: alloc)
  next
    case False
    with no have "\<exists>err. PyArray_AllocateMaskNA e w fa ownmaskna multina = (Inl err, w, fa)"
      by (auto simp: PyArray_AllocateMaskNA_def Let_def PyArray_DescrFromType_def
            PyArray_malloc_def)
    with no show ?thesis by (auto intro: failed)
  qed
qed

text \<open>The three branches of the body, one equation each.\<close>

lemma allocate_body_1d:
  "nd fa = 1 \<Longrightarrow> allocate_body e w fa multina =
     allocate_1d e (w\<lparr>live := insert (malloc_ret e) (live w)\<rparr>) fa
       \<lparr>type_num = (if multina then NPY_MASK else NPY_BOOL), elsize = 1\<rparr>
       (malloc_ret e) (PyArray_SIZE fa)"
  by (simp add: allocate_body_def)

lemma allocate_body_nd:
  "nd fa > 1 \<Longrightarrow> allocate_body e w fa multina =
     allocate_nd e (w\<lparr>live := insert (malloc_ret e) (live w)\<rparr>) fa
       \<lparr>type_num = (if multina then NPY_MASK else NPY_BOOL), elsize = 1\<rparr>
       (malloc_ret e) (PyArray_SIZE fa)"
  by (simp add: allocate_body_def)

lemma allocate_body_0d:
  "nd fa < 1 \<Longrightarrow> allocate_body e w fa multina =
     allocate_0d (w\<lparr>live := insert (malloc_ret e) (live w)\<rparr>) fa
       \<lparr>type_num = (if multina then NPY_MASK else NPY_BOOL), elsize = 1\<rparr> (malloc_ret e)"
  by (simp add: allocate_body_def)

section \<open>Error safety\<close>

lemma allocate_1d_error:
  "fst (allocate_1d e w fa d p n) = Inl err \<Longrightarrow>
     snd (snd (allocate_1d e w fa d p n)) = fa \<and>
     mem (fst (snd (allocate_1d e w fa d p n))) = mem w"
  by (auto simp: allocate_1d_def Let_def PyArray_free_def split: if_splits option.splits)

lemma allocate_nd_error:
  "fst (allocate_nd e w fa d p n) = Inl err \<Longrightarrow>
     snd (snd (allocate_nd e w fa d p n)) = fa \<and>
     mem (fst (snd (allocate_nd e w fa d p n))) = mem w"
  by (auto simp: allocate_nd_def Let_def PyArray_free_def split: if_splits option.splits)

lemma allocate_0d_success: "fst (allocate_0d w fa d p) = Inr ()"
  by (simp add: allocate_0d_def Let_def)

lemma allocate_body_error:
  assumes "fst (allocate_body e w fa multina) = Inl err"
  shows "snd (snd (allocate_body e w fa multina)) = fa \<and>
         mem (fst (snd (allocate_body e w fa multina))) = mem w"
proof -
  consider "nd fa = 1" | "nd fa > 1" | "nd fa < 1" by linarith
  then show ?thesis
  proof cases
    case 1
    show ?thesis using assms allocate_1d_error [where err = err]
      unfolding allocate_body_1d [OF 1] by simp
  next
    case 2
    show ?thesis using assms allocate_nd_error [where err = err]
      unfolding allocate_body_nd [OF 2] by simp
  next
    case 3
    show ?thesis using assms allocate_0d_success
      unfolding allocate_body_0d [OF 3] by simp
  qed
qed

text \<open>
  C2. Whenever the allocator reports an error (fields, descriptor, allocation or cast),
  the array it leaves behind is the array it was given, field for field (flags, mask
  buffer, mask strides, mask descriptor), and the contents of the store are unchanged:
  nothing is written to the array before the last fallible step has succeeded.
\<close>

theorem AllocateMaskNA_error_unchanged:
  assumes "fst (PyArray_AllocateMaskNA e w fa ownmaskna multina) = Inl err"
  shows "snd (snd (PyArray_AllocateMaskNA e w fa ownmaskna multina)) = fa \<and>
         mem (fst (snd (PyArray_AllocateMaskNA e w fa ownmaskna multina))) = mem w"
proof (cases rule: AllocateMaskNA_cases [of fa ownmaskna e w multina])
  case early
  with assms show ?thesis by simp
next
  case (failed err')
  then show ?thesis by simp
next
  case alloc
  with assms allocate_body_error [of e w fa multina err] show ?thesis by simp
qed

theorem AllocateMaskNA_error_unchanged_witness:
  "fst (PyArray_AllocateMaskNA env_nocast world0 ex_strided True False) = Inl CastError \<and>
   snd (snd (PyArray_AllocateMaskNA env_nocast world0 ex_strided True False)) = ex_strided \<and>
   mem (fst (snd (PyArray_AllocateMaskNA env_nocast world0 ex_strided True False))) = mem world0"
proof -
  have h: "fst (PyArray_AllocateMaskNA env_nocast world0 ex_strided True False) = Inl CastError"
    by code_simp
  from AllocateMaskNA_error_unchanged [OF h] h show ?thesis by simp
qed

section \<open>Early exits\<close>

text \<open>
  C4. The allocator has two early exits that return success and change nothing: an array
  that already owns its mask, whatever \<open>ownmaskna\<close> and \<open>multina\<close> are; and an array that
  has some mask when \<open>ownmaskna\<close> is false.
\<close>

theorem AllocateMaskNA_early_exits:
  "(flags fa AND NPY_ARRAY_OWNMASKNA \<noteq> 0 \<longrightarrow>
      PyArray_AllocateMaskNA e w fa ownmaskna multina = (Inr (), w, fa)) \<and>
   (flags fa AND NPY_ARRAY_MASKNA \<noteq> 0 \<longrightarrow>
      PyArray_AllocateMaskNA e w fa False multina = (Inr (), w, fa))"
  by (simp add: PyArray_AllocateMaskNA_def)

theorem AllocateMaskNA_early_exits_witness:
  "flags ex_fields_owned AND NPY_ARRAY_OWNMASKNA \<noteq> 0 \<and>
   flags ex_fields_owned AND NPY_ARRAY_MASKNA \<noteq> 0 \<and>
   PyArray_AllocateMaskNA env_ok world0 ex_fields_owned True True =
     (Inr (), world0, ex_fields_owned) \<and>
   PyArray_AllocateMaskNA env_ok world0 ex_fields_owned False True =
     (Inr (), world0, ex_fields_owned)"
proof -
  have h: "flags ex_fields_owned AND NPY_ARRAY_OWNMASKNA \<noteq> 0"
    "flags ex_fields_owned AND NPY_ARRAY_MASKNA \<noteq> 0"
    by code_simp+
  from AllocateMaskNA_early_exits [of ex_fields_owned env_ok world0 True True] h
  show ?thesis by simp
qed

section \<open>Flags after a successful call\<close>

text \<open>
  C6, as the spec states it, fails: a call without \<open>ownmaskna\<close> on an array with a
  borrowed mask succeeds and leaves the mask borrowed.
\<close>

theorem AllocateMaskNA_borrowed_stays_borrowed:
  "fst (PyArray_AllocateMaskNA env_ok world0 ex_borrowed False False) = Inr () \<and>
   flags (snd (snd (PyArray_AllocateMaskNA env_ok world0 ex_borrowed False False))) AND
     NPY_ARRAY_OWNMASKNA = 0"
  by code_simp

lemma allocate_body_success_flags:
  assumes "fst (allocate_body e w fa multina) = Inr ()"
  shows "flags (snd (snd (allocate_body e w fa multina))) AND NPY_ARRAY_MASKNA \<noteq> 0 \<and>
         flags (snd (snd (allocate_body e w fa multina))) AND NPY_ARRAY_OWNMASKNA \<noteq> 0"
proof -
  consider "nd fa = 1" | "nd fa > 1" | "nd fa < 1" by linarith
  then show ?thesis
  proof cases
    case 1
    show ?thesis using assms unfolding allocate_body_1d [OF 1]
      by (auto simp: allocate_1d_def Let_def install_mask_flags split: if_splits option.splits)
  next
    case 2
    show ?thesis using assms unfolding allocate_body_nd [OF 2]
      by (auto simp: allocate_nd_def Let_def install_mask_flags split: if_splits option.splits)
  next
    case 3
    show ?thesis unfolding allocate_body_0d [OF 3]
      by (simp add: allocate_0d_def Let_def install_mask_flags)
  qed
qed

text \<open>
  C6, amended. For an array that satisfies the invariant "owns a mask implies has a
  mask", a successful call leaves the array with a mask; the array owns that mask
  whenever \<open>ownmaskna\<close> was requested or the array had no mask before the call. (In the
  remaining case, a borrowed mask without \<open>ownmaskna\<close>, the call is the second early
  exit and the mask stays borrowed.)
\<close>

theorem AllocateMaskNA_success_flags:
  assumes "flags fa AND NPY_ARRAY_OWNMASKNA \<noteq> 0 \<longrightarrow> flags fa AND NPY_ARRAY_MASKNA \<noteq> 0"
    and "fst (PyArray_AllocateMaskNA e w fa ownmaskna multina) = Inr ()"
  shows "flags (snd (snd (PyArray_AllocateMaskNA e w fa ownmaskna multina))) AND
           NPY_ARRAY_MASKNA \<noteq> 0 \<and>
         (ownmaskna \<or> flags fa AND NPY_ARRAY_MASKNA = 0 \<longrightarrow>
          flags (snd (snd (PyArray_AllocateMaskNA e w fa ownmaskna multina))) AND
            NPY_ARRAY_OWNMASKNA \<noteq> 0)"
proof (cases rule: AllocateMaskNA_cases [of fa ownmaskna e w multina])
  case early
  with assms(1) show ?thesis by auto
next
  case (failed err)
  with assms(2) show ?thesis by simp
next
  case alloc
  with assms(2) allocate_body_success_flags [of e w fa multina] show ?thesis by simp
qed

theorem AllocateMaskNA_success_flags_witness:
  "flags ex_nomask AND NPY_ARRAY_OWNMASKNA = 0 \<and>
   fst (PyArray_AllocateMaskNA env_ok world0 ex_nomask False False) = Inr () \<and>
   flags ex_nomask AND NPY_ARRAY_MASKNA = 0 \<and>
   flags (snd (snd (PyArray_AllocateMaskNA env_ok world0 ex_nomask False False))) AND
     NPY_ARRAY_MASKNA \<noteq> 0 \<and>
   flags (snd (snd (PyArray_AllocateMaskNA env_ok world0 ex_nomask False False))) AND
     NPY_ARRAY_OWNMASKNA \<noteq> 0"
proof -
  have h0: "flags ex_nomask AND NPY_ARRAY_OWNMASKNA = 0"
    by code_simp
  then have h1: "flags ex_nomask AND NPY_ARRAY_OWNMASKNA \<noteq> 0 \<longrightarrow>
      flags ex_nomask AND NPY_ARRAY_MASKNA \<noteq> 0"
    by simp
  have h2: "fst (PyArray_AllocateMaskNA env_ok world0 ex_nomask False False) = Inr ()"
    by code_simp
  have h3: "flags ex_nomask AND NPY_ARRAY_MASKNA = 0"
    by code_simp
  from AllocateMaskNA_success_flags [OF h1 h2] h0 h2 h3 show ?thesis by simp
qed

section \<open>Structured element types\<close>

text \<open>
  C7, as the spec states it, fails: the early exits come before the field check, so an
  array of a structured type that already owns a mask gets success, not an error.
\<close>

theorem AllocateMaskNA_fields_early_exit:
  "hasfields ex_fields_owned \<and>
   fst (PyArray_AllocateMaskNA env_ok world0 ex_fields_owned True False) = Inr () \<and>
   snd (snd (PyArray_AllocateMaskNA env_ok world0 ex_fields_owned True False)) =
     ex_fields_owned"
  by code_simp

text \<open>
  C7, amended. For an array of a structured type that takes neither early exit (it does
  not own a mask, and it has no mask or \<open>ownmaskna\<close> is requested), the allocator fails
  with the runtime error of the field check, whatever the descriptor registry, the
  allocator and the cast would answer, and returns the store, the set of live blocks and
  the array as they were: the check comes before any allocation.
\<close>

theorem AllocateMaskNA_fields_rejected:
  assumes "hasfields fa"
    and "flags fa AND NPY_ARRAY_OWNMASKNA = 0"
    and "ownmaskna \<or> flags fa AND NPY_ARRAY_MASKNA = 0"
  shows "PyArray_AllocateMaskNA e w fa ownmaskna multina = (Inl RuntimeError, w, fa)"
  using assms by (auto simp: PyArray_AllocateMaskNA_def)

theorem AllocateMaskNA_fields_rejected_witness:
  "hasfields ex_fields \<and> flags ex_fields AND NPY_ARRAY_OWNMASKNA = 0 \<and>
   flags ex_fields AND NPY_ARRAY_MASKNA = 0 \<and>
   PyArray_AllocateMaskNA env_ok world0 ex_fields False False =
     (Inl RuntimeError, world0, ex_fields)"
proof -
  have h: "hasfields ex_fields" "flags ex_fields AND NPY_ARRAY_OWNMASKNA = 0"
    "flags ex_fields AND NPY_ARRAY_MASKNA = 0"
    by code_simp+
  from AllocateMaskNA_fields_rejected [OF h(1) h(2) disjI2 [OF h(3)], of env_ok world0 False False] h
  show ?thesis by simp
qed

section \<open>The scan for NA\<close>

lemma ContainsNA_no_support: "\<not> PyArray_HasNASupport arr \<Longrightarrow> \<not> PyArray_ContainsNA w arr"
  by (simp add: PyArray_ContainsNA_def)

lemma ContainsNA_always_False: "\<not> PyArray_ContainsNA w arr"
  by (simp add: PyArray_ContainsNA_def)

text \<open>
  C9. The scan returns false for an array without NA support, as claimed; but it also
  returns false for the array \<open>ex_borrowed\<close>, which has a mask whose second cell is 0,
  where the contract asks for true.
\<close>

theorem ContainsNA_misses_NA:
  "PyArray_HasNASupport ex_borrowed \<and> is_NA world0 ex_borrowed [1] \<and>
   spec_ContainsNA world0 ex_borrowed \<and> \<not> PyArray_ContainsNA world0 ex_borrowed"
  by code_simp

section \<open>The contiguous fast path of rank 1\<close>

text \<open>
  C8. On \<open>ex_multina\<close>, a one-dimensional array with a contiguous borrowed MultiNA mask
  holding 2 and 0, a call that asks for an owned Boolean mask takes the byte copy and
  stores 2 in the first cell of the new mask; the strided cast on the same input stores 1.
\<close>

theorem AllocateMaskNA_fast_path_differs:
  "maskna_strides ex_multina ! 0 = 1 \<and>
   fst (PyArray_AllocateMaskNA env_ok world0 ex_multina True False) = Inr () \<and>
   mem (fst (snd (PyArray_AllocateMaskNA env_ok world0 ex_multina True False))) 1000 = 2 \<and>
   map_option (\<lambda>h. h 1000)
     (PyArray_CastRawArrays env_ok (dimensions ex_multina ! 0) (maskna_data ex_multina) 1000
        (maskna_strides ex_multina ! 0) 1 (maskna_dtype ex_multina) bool_descr (mem world0))
     = Some 1"
  by code_simp

section \<open>Layout arithmetic\<close>

subsection \<open>Index tuples and the copy loop\<close>

lemma set_indices: "set (indices shape) = {idx. in_shape idx shape}"
proof (induction shape)
  case Nil
  show ?case by (auto simp: in_shape_def)
next
  case (Cons d ds)
  show ?case
  proof (intro set_eqI iffI)
    fix idx assume "idx \<in> set (indices (d # ds))"
    then obtain i r where "idx = i # r" "0 \<le> i" "i \<le> d - 1" "r \<in> set (indices ds)"
      by auto
    with Cons show "idx \<in> {idx. in_shape idx (d # ds)}"
      by (simp add: in_shape_def)
  next
    fix idx assume "idx \<in> {idx. in_shape idx (d # ds)}"
    then obtain i r where "idx = i # r" "0 \<le> i" "i < d" "in_shape r ds"
      by (auto simp: in_shape_def list_all2_Cons2)
    with Cons show "idx \<in> set (indices (d # ds))"
      by auto
  qed
qed


lemma in_shape_nth:
  "in_shape idx shape \<longleftrightarrow>
     length idx = length shape \<and> (\<forall>k<length shape. 0 \<le> idx ! k \<and> idx ! k < shape ! k)"
  by (auto simp: in_shape_def list_all2_conv_all_nth)

lemma copy_loop:
  assumes "\<forall>x\<in>set xs. \<forall>y\<in>set xs. wr x \<noteq> rd y" and "inj_on wr (set xs)"
  shows "(\<forall>x\<in>set xs. foldl (\<lambda>h x. h(wr x := f (h (rd x)))) m xs (wr x) = f (m (rd x))) \<and>
         (\<forall>a. a \<notin> wr ` set xs \<longrightarrow> foldl (\<lambda>h x. h(wr x := f (h (rd x)))) m xs a = m a)"
  using assms
proof (induction xs rule: rev_induct)
  case Nil
  show ?case by simp
next
  case (snoc y xs)
  let ?h = "foldl (\<lambda>h x. h(wr x := f (h (rd x)))) m xs"
  from snoc.prems have disj: "\<forall>x\<in>set xs. \<forall>y\<in>set xs. wr x \<noteq> rd y"
    and inj: "inj_on wr (set xs)" by (auto simp: inj_on_def)
  from snoc.IH [OF disj inj]
  have ih1: "\<And>x. x \<in> set xs \<Longrightarrow> ?h (wr x) = f (m (rd x))"
    and ih2: "\<And>a. a \<notin> wr ` set xs \<Longrightarrow> ?h a = m a" by blast+
  from snoc.prems(1) have "rd y \<notin> wr ` set xs" by auto
  then have rdy: "?h (rd y) = m (rd y)" by (rule ih2)
  have step: "foldl (\<lambda>h x. h(wr x := f (h (rd x)))) m (xs @ [y]) = ?h(wr y := f (m (rd y)))"
    by (simp add: rdy)
  show ?case
  proof (intro conjI ballI allI impI)
    fix x assume x: "x \<in> set (xs @ [y])"
    show "foldl (\<lambda>h x. h(wr x := f (h (rd x)))) m (xs @ [y]) (wr x) = f (m (rd x))"
    proof (cases "wr x = wr y")
      case True
      with x snoc.prems(2) have "x = y" by (auto simp: inj_on_def)
      then show ?thesis unfolding step by simp
    next
      case False
      with x have "x \<in> set xs" by auto
      with False ih1 show ?thesis unfolding step by simp
    qed
  next
    fix a assume "a \<notin> wr ` set (xs @ [y])"
    then have "a \<noteq> wr y" "a \<notin> wr ` set xs" by auto
    with ih2 show "foldl (\<lambda>h x. h(wr x := f (h (rd x)))) m (xs @ [y]) a = m a"
      unfolding step by simp
  qed
qed

subsection \<open>The stride loop as a placement\<close>

lemma length_place [simp]: "length (place as shape strd ms) = length ms"
  by (induction as arbitrary: strd ms) auto

lemma place_nth_other: "a \<notin> set as \<Longrightarrow> place as shape strd ms ! a = ms ! a"
  by (induction as arbitrary: strd ms) auto

lemma place_nth:
  "distinct as \<Longrightarrow> k < length as \<Longrightarrow> \<forall>a\<in>set as. a < length ms \<Longrightarrow>
     place as shape strd ms ! (as ! k) = strd * prod_list (map ((!) shape) (take k as))"
proof (induction as arbitrary: strd ms k)
  case Nil
  then show ?case by simp
next
  case (Cons a as)
  show ?case
  proof (cases k)
    case 0
    with Cons.prems show ?thesis by (simp add: place_nth_other)
  next
    case (Suc k')
    with Cons.prems have "place as shape (strd * shape ! a) (ms[a := strd]) ! (as ! k') =
        (strd * shape ! a) * prod_list (map ((!) shape) (take k' as))"
      by (intro Cons.IH) auto
    with Suc show ?thesis by (simp add: mult.assoc)
  qed
qed

lemma npy_intp_wrap_id: "- (2 ^ 63) \<le> x \<Longrightarrow> x < 2 ^ 63 \<Longrightarrow> npy_intp_wrap x = x"
  by (simp add: npy_intp_wrap_def)

lemma length_stride_loop [simp]: "length (stride_loop i sp shape strd ms) = length ms"
  by (induction i arbitrary: strd ms) (auto simp: Let_def)

text \<open>
  As long as the running stride stays within \<^verbatim>\<open>npy_intp\<close>, the loop is the placement
  of the axes in the order in which it visits them.
\<close>

lemma stride_loop_place:
  assumes "i \<le> length sp"
    and "\<forall>k\<le>i. - (2 ^ 63) \<le> strd * prod_list (map ((!) shape) (take k (rev (map perm (take i sp))))) \<and>
           strd * prod_list (map ((!) shape) (take k (rev (map perm (take i sp))))) < 2 ^ 63"
  shows "stride_loop i sp shape strd ms = place (rev (map perm (take i sp))) shape strd ms"
  using assms
proof (induction i arbitrary: strd ms)
  case 0
  show ?case by simp
next
  case (Suc i)
  let ?p = "perm (sp ! i)"
  let ?as = "rev (map perm (take i sp))"
  from Suc.prems(1) have tk: "rev (map perm (take (Suc i) sp)) = ?p # ?as"
    by (simp add: take_Suc_conv_app_nth)
  have rng: "- (2 ^ 63) \<le> strd * prod_list (map ((!) shape) (take k (?p # ?as))) \<and>
      strd * prod_list (map ((!) shape) (take k (?p # ?as))) < 2 ^ 63" if "k \<le> Suc i" for k
    using Suc.prems(2) that unfolding tk by blast
  from rng [of 1] have "npy_intp_wrap (strd * shape ! ?p) = strd * shape ! ?p"
    by (intro npy_intp_wrap_id) simp_all
  moreover have "stride_loop i sp shape (strd * shape ! ?p) (ms[?p := strd]) =
      place ?as shape (strd * shape ! ?p) (ms[?p := strd])"
  proof (rule Suc.IH)
    show "i \<le> length sp" using Suc.prems(1) by simp
    show "\<forall>k\<le>i. - (2 ^ 63) \<le> strd * shape ! ?p * prod_list (map ((!) shape) (take k ?as)) \<and>
        strd * shape ! ?p * prod_list (map ((!) shape) (take k ?as)) < 2 ^ 63"
    proof (intro allI impI)
      fix k assume "k \<le> i"
      then have "Suc k \<le> Suc i" by simp
      from rng [OF this] show "- (2 ^ 63) \<le> strd * shape ! ?p * prod_list (map ((!) shape) (take k ?as)) \<and>
          strd * shape ! ?p * prod_list (map ((!) shape) (take k ?as)) < 2 ^ 63"
        by (simp add: mult.assoc)
    qed
  qed
  ultimately show ?case unfolding tk by (simp add: Let_def)
qed

subsection \<open>Mixed-radix numerals\<close>

lemma radix_bounds:
  "list_all2 (\<lambda>d s. 0 \<le> d \<and> d < s) ds ss \<Longrightarrow> 0 \<le> radix ds ss \<and> radix ds ss < prod_list ss"
proof (induction rule: list_all2_induct)
  case Nil
  show ?case by simp
next
  case (Cons d ds s ss)
  then have r: "0 \<le> radix ds ss" "radix ds ss + 1 \<le> prod_list ss" and d: "0 \<le> d" "d < s"
    by auto
  from d have s: "0 \<le> s" by simp
  from r(1) s have "0 \<le> s * radix ds ss" by simp
  moreover from r(2) s have "s * (radix ds ss + 1) \<le> s * prod_list ss"
    by (rule mult_left_mono)
  then have "s * radix ds ss + s \<le> s * prod_list ss" by (simp add: algebra_simps)
  ultimately show ?case using d by simp
qed

lemma radix_inj:
  "list_all2 (\<lambda>d s. 0 \<le> d \<and> d < s) ds ss \<Longrightarrow> list_all2 (\<lambda>d s. 0 \<le> d \<and> d < s) ds' ss \<Longrightarrow>
     radix ds ss = radix ds' ss \<Longrightarrow> ds = ds'"
proof (induction ss arbitrary: ds ds')
  case Nil
  then show ?case by simp
next
  case (Cons s ss)
  from Cons.prems(1) obtain d r where ds: "ds = d # r" "0 \<le> d" "d < s"
    "list_all2 (\<lambda>d s. 0 \<le> d \<and> d < s) r ss" by (auto simp: list_all2_Cons2)
  from Cons.prems(2) obtain d' r' where ds': "ds' = d' # r'" "0 \<le> d'" "d' < s"
    "list_all2 (\<lambda>d s. 0 \<le> d \<and> d < s) r' ss" by (auto simp: list_all2_Cons2)
  from Cons.prems(3) ds ds' have eq: "d + s * radix r ss = d' + s * radix r' ss" by simp
  have "(d + s * radix r ss) mod s = d" "(d' + s * radix r' ss) mod s = d'"
    using ds ds' by simp_all
  with eq have dd: "d = d'" by simp
  with eq ds have "radix r ss = radix r' ss" by simp
  with Cons.IH ds ds' have "r = r'" by blast
  with dd ds ds' show ?case by simp
qed


subsection \<open>Offsets under a placement\<close>

lemma offset_sum:
  "length idx = length ms \<Longrightarrow> offset ms idx = (\<Sum>a<length ms. idx ! a * ms ! a)"
  by (simp add: offset_def sum_list_sum_nth lessThan_atLeast0)

lemma offset_place:
  assumes "length idx = length ms" "distinct as" "\<forall>a\<in>set as. a < length ms"
  shows "offset (place as shape strd ms) idx =
     (\<Sum>a\<in>{..<length ms} - set as. idx ! a * ms ! a) +
     strd * radix (map ((!) idx) as) (map ((!) shape) as)"
  using assms
proof (induction as arbitrary: strd ms)
  case Nil
  then show ?case by (simp add: offset_sum)
next
  case (Cons a as)
  let ?ms = "ms[a := strd]"
  let ?R = "{..<length ms} - set (a # as)"
  let ?r = "radix (map ((!) idx) as) (map ((!) shape) as)"
  from Cons.prems have a: "a < length ms" "a \<notin> set as" by auto
  have len: "length idx = length ?ms" using Cons.prems(1) by simp
  have dis: "distinct as" using Cons.prems(2) by simp
  have bnd: "\<forall>b\<in>set as. b < length ?ms" using Cons.prems(3) by simp
  have ih: "offset (place as shape (strd * shape ! a) ?ms) idx =
      (\<Sum>b\<in>{..<length ?ms} - set as. idx ! b * ?ms ! b) + (strd * shape ! a) * ?r"
    by (rule Cons.IH [OF len dis bnd])
  have fin: "finite ?R" by simp
  have notin: "a \<notin> ?R" by simp
  have set_eq: "{..<length ?ms} - set as = insert a ?R" using a by auto
  have s1: "(\<Sum>b\<in>insert a ?R. idx ! b * ?ms ! b) =
      idx ! a * ?ms ! a + (\<Sum>b\<in>?R. idx ! b * ?ms ! b)"
    using fin notin by (rule sum.insert)
  have s2: "(\<Sum>b\<in>?R. idx ! b * ?ms ! b) = (\<Sum>b\<in>?R. idx ! b * ms ! b)"
  proof (rule sum.cong [OF refl])
    fix b assume "b \<in> ?R"
    then have "b \<noteq> a" by auto
    then show "idx ! b * ?ms ! b = idx ! b * ms ! b" by simp
  qed
  have s3: "?ms ! a = strd" using a by simp
  have "offset (place (a # as) shape strd ms) idx =
      offset (place as shape (strd * shape ! a) ?ms) idx" by simp
  also have "\<dots> = (idx ! a * strd + (\<Sum>b\<in>?R. idx ! b * ms ! b)) + (strd * shape ! a) * ?r"
    unfolding ih set_eq s1 s2 s3 ..
  also have "\<dots> = (\<Sum>b\<in>?R. idx ! b * ms ! b) + strd * (idx ! a + shape ! a * ?r)"
    by (simp only: distrib_left mult.assoc mult.commute add.assoc add.commute add.left_commute)
  finally show ?case by simp
qed

lemma offset_place_perm:
  assumes "length idx = length ms" "distinct as" "set as = {..<length ms}"
  shows "offset (place as shape strd ms) idx =
     strd * radix (map ((!) idx) as) (map ((!) shape) as)"
  using offset_place [OF assms(1,2), of shape strd] assms(3) by simp

lemma digits_valid:
  assumes "in_shape idx shape" "\<forall>a\<in>set as. a < length shape"
  shows "list_all2 (\<lambda>d s. 0 \<le> d \<and> d < s) (map ((!) idx) as) (map ((!) shape) as)"
  using assms by (auto simp: in_shape_nth list_all2_conv_all_nth)

lemma prod_list_perm:
  assumes "distinct as" "set as = {..<length shape}"
  shows "prod_list (map ((!) shape) as) = prod_list (shape :: int list)"
proof -
  have "prod_list (map ((!) shape) as) = prod ((!) shape) (set as)"
    using assms(1) by (simp add: prod.distinct_set_conv_list)
  also have "\<dots> = prod ((!) shape) (set [0..<length shape])"
    using assms(2) by (simp add: lessThan_atLeast0)
  also have "\<dots> = prod_list (map ((!) shape) [0..<length shape])"
    by (rule prod.distinct_set_conv_list) simp
  also have "\<dots> = prod_list shape"
    by (simp add: map_nth)
  finally show ?thesis .
qed


lemma place_offset_radix:
  assumes "length ms = length shape" "distinct as" "set as = {..<length shape}"
    and "in_shape idx shape"
  shows "offset (place as shape e ms) idx = e * radix (map ((!) idx) as) (map ((!) shape) as)"
    and "list_all2 (\<lambda>d s. 0 \<le> d \<and> d < s) (map ((!) idx) as) (map ((!) shape) as)"
proof -
  from assms show "offset (place as shape e ms) idx =
      e * radix (map ((!) idx) as) (map ((!) shape) as)"
    by (intro offset_place_perm) (auto simp: in_shape_nth)
  from assms show "list_all2 (\<lambda>d s. 0 \<le> d \<and> d < s) (map ((!) idx) as) (map ((!) shape) as)"
    by (intro digits_valid) auto
qed

lemma place_offset_bounds:
  assumes len: "length ms = length shape" and as: "distinct as" "set as = {..<length shape}"
    and e: "0 \<le> e" and i: "in_shape idx shape"
  shows "0 \<le> offset (place as shape e ms) idx \<and>
         offset (place as shape e ms) idx + e \<le> prod_list shape * e"
proof -
  let ?r = "radix (map ((!) idx) as) (map ((!) shape) as)"
  from radix_bounds [OF place_offset_radix(2) [OF len as i]] prod_list_perm [OF as]
  have r: "0 \<le> ?r" "?r + 1 \<le> prod_list shape" by auto
  from r(2) e have "e * (?r + 1) \<le> e * prod_list shape" by (rule mult_left_mono)
  with r(1) e show ?thesis
    by (simp add: place_offset_radix(1) [OF len as i] algebra_simps)
qed

lemma place_offset_inj:
  assumes len: "length ms = length shape" and as: "distinct as" "set as = {..<length shape}"
    and e: "0 < e"
  shows "inj_on (offset (place as shape e ms)) {idx. in_shape idx shape}"
proof (rule inj_onI)
  fix x y assume x: "x \<in> {idx. in_shape idx shape}" and y: "y \<in> {idx. in_shape idx shape}"
    and eq: "offset (place as shape e ms) x = offset (place as shape e ms) y"
  from x y have xs: "in_shape x shape" and ys: "in_shape y shape" by auto
  from eq e have "radix (map ((!) x) as) (map ((!) shape) as) =
      radix (map ((!) y) as) (map ((!) shape) as)"
    by (simp add: place_offset_radix(1) [OF len as xs] place_offset_radix(1) [OF len as ys])
  from radix_inj [OF place_offset_radix(2) [OF len as xs] place_offset_radix(2) [OF len as ys] this]
  have "\<forall>a\<in>set as. x ! a = y ! a" by simp
  with as xs ys show "x = y"
    by (intro nth_equalityI) (auto simp: in_shape_nth)
qed

subsection \<open>Products within the range of npy\_intp\<close>

lemma prod_list_nz_ge_1:
  "\<forall>v\<in>set vs. (0::int) \<le> v \<Longrightarrow> 1 \<le> prod_list (map (\<lambda>d. if d = 0 then 1 else d) vs)"
proof (induction vs)
  case Nil
  show ?case by simp
next
  case (Cons v vs)
  then have "1 \<le> (if v = 0 then 1 else v)"
    "1 \<le> prod_list (map (\<lambda>d. if d = 0 then 1 else d) vs)" by auto
  then have "1 * 1 \<le> (if v = 0 then 1 else v) * prod_list (map (\<lambda>d. if d = 0 then 1 else d) vs)"
    by (intro mult_mono) auto
  then show ?case by simp
qed

text \<open>
  Every product of a prefix of non-negative values lies between 0 and the product of the
  non-zero values.
\<close>

lemma prod_take_le:
  "\<forall>v\<in>set vs. (0::int) \<le> v \<Longrightarrow>
     0 \<le> prod_list (take k vs) \<and>
     prod_list (take k vs) \<le> prod_list (map (\<lambda>d. if d = 0 then 1 else d) vs)"
proof (induction vs arbitrary: k)
  case Nil
  show ?case by simp
next
  case (Cons v vs)
  let ?nz = "\<lambda>d::int. if d = 0 then 1 else d"
  from Cons.prems have v: "0 \<le> v" "v \<le> ?nz v" and vs: "\<forall>v\<in>set vs. 0 \<le> v" by auto
  show ?case
  proof (cases k)
    case 0
    from prod_list_nz_ge_1 [of "v # vs"] Cons.prems show ?thesis by (simp add: 0)
  next
    case (Suc k')
    from Cons.IH [OF vs, of k'] have ih: "0 \<le> prod_list (take k' vs)"
      "prod_list (take k' vs) \<le> prod_list (map ?nz vs)" by auto
    from v(2) ih(2) v(1) ih(1) have "v * prod_list (take k' vs) \<le> ?nz v * prod_list (map ?nz vs)"
      by (intro mult_mono) auto
    moreover from v(1) ih(1) have "0 \<le> v * prod_list (take k' vs)" by simp
    ultimately show ?thesis by (simp add: Suc)
  qed
qed

lemma foldl_wrap_prod:
  assumes "\<forall>k\<le>length vs. - (2 ^ 63) \<le> s * prod_list (take k vs) \<and>
             s * prod_list (take k vs) < 2 ^ 63"
  shows "foldl (\<lambda>s d. npy_intp_wrap (s * d)) s vs = s * prod_list vs"
  using assms
proof (induction vs arbitrary: s)
  case Nil
  show ?case by simp
next
  case (Cons v vs)
  have rng: "- (2 ^ 63) \<le> s * prod_list (take k (v # vs)) \<and>
      s * prod_list (take k (v # vs)) < 2 ^ 63" if "k \<le> Suc (length vs)" for k
    using Cons.prems that by simp
  from rng [of 1] have w: "npy_intp_wrap (s * v) = s * v"
    by (intro npy_intp_wrap_id) simp_all
  have "foldl (\<lambda>s d. npy_intp_wrap (s * d)) (s * v) vs = s * v * prod_list vs"
  proof (rule Cons.IH, intro allI impI)
    fix k assume "k \<le> length vs"
    then have "Suc k \<le> Suc (length vs)" by simp
    from rng [OF this] show "- (2 ^ 63) \<le> s * v * prod_list (take k vs) \<and>
        s * v * prod_list (take k vs) < 2 ^ 63"
      by (simp add: mult.assoc)
  qed
  with w show ?case by (simp add: mult.assoc)
qed

text \<open>
  Beyond the bound the products wrap as the machine multiplication does: for \<open>ex_huge\<close>
  the size is 0 and the running stride of the loop reaches \<open>2 ^ 64\<close>, which is 0 in
  \<^verbatim>\<open>npy_intp\<close>, so the first axis gets the mask stride 0.
\<close>

lemma ex_huge_wraps:
  "\<not> wf_array ex_huge \<and> PyArray_SIZE ex_huge = 0 \<and>
   new_maskna_strides ex_huge bool_descr = [0, 4, 1]"
  by code_simp

subsection \<open>The sorted stride permutation and the new mask strides\<close>

lemma sortperm_length [simp]: "length (PyArray_CreateSortedStridePerm n strds) = n"
  by (simp add: PyArray_CreateSortedStridePerm_def)

lemma sortperm_set:
  "set (PyArray_CreateSortedStridePerm n strds) = (\<lambda>i. \<lparr>perm = i, stride = strds ! i\<rparr>) ` {..<n}"
  by (simp add: PyArray_CreateSortedStridePerm_def lessThan_atLeast0)

lemma sortperm_perm_set: "set (map perm (PyArray_CreateSortedStridePerm n strds)) = {..<n}"
  by (auto simp: sortperm_set image_iff)

lemma sortperm_perm_distinct: "distinct (map perm (PyArray_CreateSortedStridePerm n strds))"
proof -
  have "distinct (map (\<lambda>i. \<lparr>perm = i, stride = strds ! i\<rparr>) [0..<n])"
    by (simp add: distinct_map inj_on_def)
  moreover have "inj_on perm (set (PyArray_CreateSortedStridePerm n strds))"
    by (auto simp: sortperm_set inj_on_def)
  ultimately show ?thesis
    by (simp add: distinct_map PyArray_CreateSortedStridePerm_def)
qed

lemma sortperm_stride:
  "i < n \<Longrightarrow> stride (PyArray_CreateSortedStridePerm n strds ! i) =
     strds ! perm (PyArray_CreateSortedStridePerm n strds ! i)"
proof -
  assume "i < n"
  then have "PyArray_CreateSortedStridePerm n strds ! i \<in> set (PyArray_CreateSortedStridePerm n strds)"
    by simp
  then show ?thesis unfolding sortperm_set by auto
qed

lemma sortperm_sorted:
  assumes "i \<le> j" "j < n"
  shows "\<bar>stride (PyArray_CreateSortedStridePerm n strds ! j)\<bar> \<le>
         \<bar>stride (PyArray_CreateSortedStridePerm n strds ! i)\<bar>"
proof -
  let ?sp = "PyArray_CreateSortedStridePerm n strds"
  have "sorted (map (\<lambda>it. - \<bar>stride it\<bar>) ?sp)"
    unfolding PyArray_CreateSortedStridePerm_def by (rule sorted_sort_key)
  with assms have "map (\<lambda>it. - \<bar>stride it\<bar>) ?sp ! i \<le> map (\<lambda>it. - \<bar>stride it\<bar>) ?sp ! j"
    by (intro sorted_nth_mono) auto
  with assms show ?thesis by simp
qed

lemma walk_order_props:
  "length (walk_order fa) = nat (nd fa)" "distinct (walk_order fa)"
  "set (walk_order fa) = {..<nat (nd fa)}"
  using sortperm_perm_set [of "nat (nd fa)" "strides fa"]
    sortperm_perm_distinct [of "nat (nd fa)" "strides fa"]
  by (simp_all add: walk_order_def)

lemma wf_shape_of: "wf_array fa \<Longrightarrow> shape_of fa = dimensions fa"
  by (simp add: wf_array_def shape_of_def)

lemma wf_array_dims: "wf_array fa \<Longrightarrow> \<forall>d\<in>set (dimensions fa). 0 \<le> d"
  by (simp add: wf_array_def list_all_iff)

lemma wf_array_length: "wf_array fa \<Longrightarrow> length (dimensions fa) = nat (nd fa)"
  by (simp add: wf_array_def)

lemma wf_array_fits:
  "wf_array fa \<Longrightarrow> prod_list (map (\<lambda>d. if d = 0 then 1 else d) (dimensions fa)) < 2 ^ 63"
  by (simp add: wf_array_def)

text \<open>For a well-formed array the size is the product of the extents, without wrap.\<close>

lemma wf_SIZE:
  assumes "wf_array fa"
  shows "PyArray_SIZE fa = prod_list (dimensions fa)"
proof -
  have "foldl (\<lambda>s d. npy_intp_wrap (s * d)) 1 (dimensions fa) = 1 * prod_list (dimensions fa)"
  proof (rule foldl_wrap_prod, intro allI impI)
    fix k
    from prod_take_le [OF wf_array_dims [OF assms], of k] wf_array_fits [OF assms]
    show "- (2 ^ 63) \<le> 1 * prod_list (take k (dimensions fa)) \<and>
        1 * prod_list (take k (dimensions fa)) < 2 ^ 63"
      by simp
  qed
  with assms show ?thesis by (simp add: PyArray_SIZE_def wf_array_def)
qed

lemma wf_SIZE_range:
  assumes "wf_array fa"
  shows "0 \<le> PyArray_SIZE fa" "PyArray_SIZE fa < 2 ^ 63"
    "npy_intp_wrap (PyArray_SIZE fa) = PyArray_SIZE fa"
proof -
  from prod_take_le [OF wf_array_dims [OF assms], of "length (dimensions fa)"]
    wf_array_fits [OF assms]
  show "0 \<le> PyArray_SIZE fa" "PyArray_SIZE fa < 2 ^ 63"
    by (simp_all add: wf_SIZE [OF assms])
  then show "npy_intp_wrap (PyArray_SIZE fa) = PyArray_SIZE fa"
    by (intro npy_intp_wrap_id) simp_all
qed

text \<open>
  For a well-formed array and a one-byte mask element the running stride never leaves
  \<^verbatim>\<open>npy_intp\<close>, and the new mask strides are the placement along the walk order.
\<close>

lemma new_maskna_strides_place:
  assumes wf: "wf_array fa" and el: "elsize d = 1"
  shows "new_maskna_strides fa d =
     place (walk_order fa) (dimensions fa) 1 (replicate (nat (nd fa)) 0)"
proof -
  let ?n = "nat (nd fa)"
  let ?sp = "PyArray_CreateSortedStridePerm ?n (strides fa)"
  let ?nz = "\<lambda>d::int. if d = 0 then 1 else d"
  let ?vs = "map ((!) (dimensions fa)) (walk_order fa)"
  have tk: "take ?n ?sp = ?sp" by simp
  have wo: "distinct (walk_order fa)" "set (walk_order fa) = {..<length (dimensions fa)}"
    using wf by (simp_all add: walk_order_props wf_array_length)
  have nonneg: "\<forall>v\<in>set ?vs. 0 \<le> v"
    using wo(2) wf_array_dims [OF wf] by auto
  have eqm: "map ?nz ?vs = map ((!) (map ?nz (dimensions fa))) (walk_order fa)"
    using wo(2) by simp
  have "prod_list (map ?nz ?vs) =
      prod_list (map ((!) (map ?nz (dimensions fa))) (walk_order fa))"
    by (simp only: eqm)
  also have "\<dots> = prod_list (map ?nz (dimensions fa))"
    by (rule prod_list_perm) (simp_all add: wo)
  finally have fits: "prod_list (map ?nz ?vs) < 2 ^ 63"
    using wf_array_fits [OF wf] by simp
  have rng: "\<forall>k\<le>?n. - (2 ^ 63) \<le> 1 * prod_list (map ((!) (dimensions fa))
        (take k (rev (map perm (take ?n ?sp))))) \<and>
      1 * prod_list (map ((!) (dimensions fa)) (take k (rev (map perm (take ?n ?sp))))) < 2 ^ 63"
  proof (intro allI impI)
    fix k
    from prod_take_le [OF nonneg, of k] fits
    show "- (2 ^ 63) \<le> 1 * prod_list (map ((!) (dimensions fa))
        (take k (rev (map perm (take ?n ?sp))))) \<and>
      1 * prod_list (map ((!) (dimensions fa)) (take k (rev (map perm (take ?n ?sp))))) < 2 ^ 63"
      unfolding tk by (simp add: walk_order_def take_map)
  qed
  have "stride_loop ?n ?sp (dimensions fa) 1 (replicate ?n 0) =
      place (rev (map perm (take ?n ?sp))) (dimensions fa) 1 (replicate ?n 0)"
    by (rule stride_loop_place [OF _ rng]) simp
  then show ?thesis
    by (simp add: new_maskna_strides_def walk_order_def el)
qed

lemma length_new_maskna_strides [simp]: "length (new_maskna_strides fa d) = nat (nd fa)"
  by (simp add: new_maskna_strides_def)

text \<open>The item at position \<open>i\<close> of the sorted items, seen from the walk order.\<close>

lemma walk_order_nth:
  "i < nat (nd fa) \<Longrightarrow>
     perm (PyArray_CreateSortedStridePerm (nat (nd fa)) (strides fa) ! i) =
     walk_order fa ! (nat (nd fa) - Suc i)"
  by (simp add: walk_order_def rev_nth)

lemma take_walk_order:
  "i < nat (nd fa) \<Longrightarrow>
     take (nat (nd fa) - Suc i) (walk_order fa) =
     rev (map perm (drop (Suc i) (PyArray_CreateSortedStridePerm (nat (nd fa)) (strides fa))))"
  by (simp add: walk_order_def take_rev drop_map)

text \<open>
  The mask stride of the axis at position \<open>i\<close> of the sorted items: the element size
  times the extents of the axes at the positions after \<open>i\<close>, which the loop visits first.
\<close>

lemma new_maskna_strides_nth:
  assumes wf: "wf_array fa" and el: "elsize d = 1" and i: "i < nat (nd fa)"
  shows "new_maskna_strides fa d !
           perm (PyArray_CreateSortedStridePerm (nat (nd fa)) (strides fa) ! i) =
         elsize d * prod_list (map (\<lambda>it. dimensions fa ! perm it)
           (drop (Suc i) (PyArray_CreateSortedStridePerm (nat (nd fa)) (strides fa))))"
proof -
  let ?n = "nat (nd fa)"
  let ?sp = "PyArray_CreateSortedStridePerm ?n (strides fa)"
  let ?k = "?n - Suc i"
  have k: "?k < length (walk_order fa)" using i by (simp add: walk_order_props)
  have "place (walk_order fa) (dimensions fa) 1 (replicate ?n 0) ! (walk_order fa ! ?k) =
      1 * prod_list (map ((!) (dimensions fa)) (take ?k (walk_order fa)))"
    using k by (intro place_nth) (auto simp: walk_order_props)
  also have "map ((!) (dimensions fa)) (take ?k (walk_order fa)) =
      rev (map (\<lambda>it. dimensions fa ! perm it) (drop (Suc i) ?sp))"
    by (simp only: take_walk_order [OF i] rev_map map_map o_def)
  finally show ?thesis
    by (simp add: new_maskna_strides_place [OF wf el] walk_order_nth [OF i, symmetric]
          prod_list.rev el)
qed

section \<open>What a successful allocation installs\<close>

text \<open>What the body installs on success.\<close>

lemma allocate_body_strides_1d:
  assumes "nd fa = 1" "fst (allocate_body e w fa multina) = Inr ()"
  shows "maskna_strides (snd (snd (allocate_body e w fa multina))) = (maskna_strides fa)[0 := 1]"
  using assms(2) unfolding allocate_body_1d [OF assms(1)]
  by (auto simp: allocate_1d_def Let_def split: if_splits option.splits)

lemma allocate_body_strides_nd:
  assumes "nd fa > 1" "fst (allocate_body e w fa multina) = Inr ()"
  shows "maskna_strides (snd (snd (allocate_body e w fa multina))) =
     take (nat (nd fa))
       (new_maskna_strides fa \<lparr>type_num = (if multina then NPY_MASK else NPY_BOOL), elsize = 1\<rparr>) @
     drop (nat (nd fa)) (maskna_strides fa)"
  using assms(2) unfolding allocate_body_nd [OF assms(1)]
  by (auto simp: allocate_nd_def Let_def split: if_splits option.splits)

lemma allocate_body_installed:
  assumes "fst (allocate_body e w fa multina) = Inr ()"
  shows "maskna_data (snd (snd (allocate_body e w fa multina))) = malloc_ret e"
    and "maskna_dtype (snd (snd (allocate_body e w fa multina))) =
           Some \<lparr>type_num = (if multina then NPY_MASK else NPY_BOOL), elsize = 1\<rparr>"
    and "nd (snd (snd (allocate_body e w fa multina))) = nd fa"
    and "dimensions (snd (snd (allocate_body e w fa multina))) = dimensions fa"
    and "strides (snd (snd (allocate_body e w fa multina))) = strides fa"
proof -
  consider "nd fa = 1" | "nd fa > 1" | "nd fa < 1" by linarith
  then have "maskna_data (snd (snd (allocate_body e w fa multina))) = malloc_ret e \<and>
     maskna_dtype (snd (snd (allocate_body e w fa multina))) =
           Some \<lparr>type_num = (if multina then NPY_MASK else NPY_BOOL), elsize = 1\<rparr> \<and>
     nd (snd (snd (allocate_body e w fa multina))) = nd fa \<and>
     dimensions (snd (snd (allocate_body e w fa multina))) = dimensions fa \<and>
     strides (snd (snd (allocate_body e w fa multina))) = strides fa"
  proof cases
    case 1
    show ?thesis using assms unfolding allocate_body_1d [OF 1]
      by (auto simp: allocate_1d_def Let_def split: if_splits option.splits)
  next
    case 2
    show ?thesis using assms unfolding allocate_body_nd [OF 2]
      by (auto simp: allocate_nd_def Let_def split: if_splits option.splits)
  next
    case 3
    show ?thesis unfolding allocate_body_0d [OF 3]
      by (simp add: allocate_0d_def Let_def)
  qed
  then show "maskna_data (snd (snd (allocate_body e w fa multina))) = malloc_ret e"
    and "maskna_dtype (snd (snd (allocate_body e w fa multina))) =
           Some \<lparr>type_num = (if multina then NPY_MASK else NPY_BOOL), elsize = 1\<rparr>"
    and "nd (snd (snd (allocate_body e w fa multina))) = nd fa"
    and "dimensions (snd (snd (allocate_body e w fa multina))) = dimensions fa"
    and "strides (snd (snd (allocate_body e w fa multina))) = strides fa"
    by simp_all
qed

text \<open>For a well-formed array of rank at least 1 the installed strides are a placement.\<close>

lemma place_single: "place [0] shape e [x] = [e]"
  by simp

lemma walk_order_1: "nd fa = 1 \<Longrightarrow> walk_order fa = [0]"
proof -
  assume "nd fa = 1"
  with walk_order_props [of fa] have "length (walk_order fa) = 1" "set (walk_order fa) = {0}"
    by auto
  then show ?thesis by (cases "walk_order fa") auto
qed

lemma allocate_body_strides_place:
  assumes wf: "wf_array fa" and nd: "1 \<le> nd fa"
    and ok: "fst (allocate_body e w fa multina) = Inr ()"
  shows "\<exists>ms. length ms = nat (nd fa) \<and>
     maskna_strides (snd (snd (allocate_body e w fa multina))) =
       place (walk_order fa) (dimensions fa) 1 ms"
proof (cases "nd fa = 1")
  case True
  with wf obtain x where x: "maskna_strides fa = [x]"
    by (cases "maskna_strides fa") (auto simp: wf_array_def)
  have "maskna_strides (snd (snd (allocate_body e w fa multina))) = [1]"
    by (simp add: allocate_body_strides_1d [OF True ok] x)
  also have "\<dots> = place (walk_order fa) (dimensions fa) 1 [x]"
    by (simp add: walk_order_1 [OF True])
  finally show ?thesis using True by (intro exI [of _ "[x]"]) simp
next
  case False
  with nd have gt: "nd fa > 1" by simp
  let ?d = "\<lparr>type_num = (if multina then NPY_MASK else NPY_BOOL), elsize = 1\<rparr>"
  from wf have "maskna_strides (snd (snd (allocate_body e w fa multina))) =
      new_maskna_strides fa ?d"
    by (simp add: allocate_body_strides_nd [OF gt ok] wf_array_def)
  then show ?thesis
    by (intro exI [of _ "replicate (nat (nd fa)) 0"]) (simp add: new_maskna_strides_place [OF wf])
qed


subsection \<open>Sign and order of placed strides\<close>

lemma prod_list_ge_1: "\<forall>x\<in>set xs. (1::int) \<le> x \<Longrightarrow> 1 \<le> prod_list xs"
proof (induction xs)
  case Nil
  show ?case by simp
next
  case (Cons x xs)
  then have "1 \<le> x" "1 \<le> prod_list xs" by auto
  then have "1 * 1 \<le> x * prod_list xs" by (intro mult_mono) auto
  then show ?case by simp
qed

lemma prod_list_ge_0: "\<forall>x\<in>set xs. (0::int) \<le> x \<Longrightarrow> 0 \<le> prod_list xs"
  by (rule prod_list_nonneg) simp

lemma place_nth_axis:
  assumes "distinct as" "set as = {..<length ms}" "k < length ms"
  obtains j where "j < length as" "as ! j = k"
    "place as shape e ms ! k = e * prod_list (map ((!) shape) (take j as))"
proof -
  from assms have "k \<in> set as" by simp
  then obtain j where j: "j < length as" "as ! j = k" by (auto simp: in_set_conv_nth)
  from assms j have "place as shape e ms ! (as ! j) = e * prod_list (map ((!) shape) (take j as))"
    by (intro place_nth) auto
  with j show ?thesis by (auto intro: that)
qed

lemma place_nonneg:
  assumes "distinct as" "set as = {..<length ms}" "length shape = length ms"
    and "\<forall>d\<in>set shape. 0 \<le> d" "0 \<le> e" "k < length ms"
  shows "0 \<le> place as shape e ms ! k \<and> e dvd place as shape e ms ! k"
proof -
  from assms(1,2,6) obtain j where j: "j < length as" "as ! j = k"
    "place as shape e ms ! k = e * prod_list (map ((!) shape) (take j as))"
    by (rule place_nth_axis)
  have "\<forall>x\<in>set (map ((!) shape) (take j as)). 0 \<le> x"
  proof
    fix x assume "x \<in> set (map ((!) shape) (take j as))"
    then obtain a where "a \<in> set as" "x = shape ! a" by (auto dest: in_set_takeD)
    with assms(2,3,4) show "0 \<le> x" by auto
  qed
  then have "0 \<le> prod_list (map ((!) shape) (take j as))" by (rule prod_list_ge_0)
  with assms(5) j(3) show ?thesis by simp
qed

lemma place_pos:
  assumes "distinct as" "set as = {..<length ms}" "length shape = length ms"
    and "\<forall>d\<in>set shape. 1 \<le> d" "0 < e" "k < length ms"
  shows "0 < place as shape e ms ! k"
proof -
  from assms(1,2,6) obtain j where j: "j < length as" "as ! j = k"
    "place as shape e ms ! k = e * prod_list (map ((!) shape) (take j as))"
    by (rule place_nth_axis)
  have "\<forall>x\<in>set (map ((!) shape) (take j as)). 1 \<le> x"
  proof
    fix x assume "x \<in> set (map ((!) shape) (take j as))"
    then obtain a where "a \<in> set as" "x = shape ! a" by (auto dest: in_set_takeD)
    with assms(2,3,4) show "1 \<le> x" by auto
  qed
  then have "1 \<le> prod_list (map ((!) shape) (take j as))" by (rule prod_list_ge_1)
  with assms(5) j(3) show ?thesis by simp
qed

lemma prod_list_drop_mono:
  assumes "\<forall>x\<in>set xs. (1::int) \<le> f x" "j \<le> i"
  shows "prod_list (map f (drop i xs)) \<le> prod_list (map f (drop j xs))"
proof -
  have "drop j xs = take (i - j) (drop j xs) @ drop i xs"
    using assms(2) by (metis append_take_drop_id drop_drop le_add_diff_inverse2)
  then have "prod_list (map f (drop j xs)) =
      prod_list (map f (take (i - j) (drop j xs))) * prod_list (map f (drop i xs))"
    by (metis map_append prod_list.append)
  moreover have "1 \<le> prod_list (map f (take (i - j) (drop j xs)))"
    using assms(1) by (intro prod_list_ge_1) (auto dest!: in_set_takeD in_set_dropD)
  moreover have "0 \<le> prod_list (map f (drop i xs))"
  proof (rule prod_list_ge_0, rule ballI)
    fix x assume "x \<in> set (map f (drop i xs))"
    then obtain y where "y \<in> set xs" "x = f y" by (auto dest: in_set_dropD)
    with assms(1) have "1 \<le> x" by auto
    then show "0 \<le> x" by simp
  qed
  ultimately show ?thesis by (simp add: mult_le_cancel_right1)
qed

lemma new_maskna_strides_mono:
  assumes wf: "wf_array fa" and el: "elsize d = 1"
    and dims: "\<forall>x\<in>set (dimensions fa). 1 \<le> x"
    and a: "a < nat (nd fa)" and b: "b < nat (nd fa)"
    and lt: "\<bar>strides fa ! a\<bar> < \<bar>strides fa ! b\<bar>"
  shows "new_maskna_strides fa d ! a \<le> new_maskna_strides fa d ! b"
proof -
  let ?n = "nat (nd fa)"
  let ?sp = "PyArray_CreateSortedStridePerm ?n (strides fa)"
  let ?f = "\<lambda>it. dimensions fa ! perm it"
  from a sortperm_perm_set [of ?n "strides fa"] have "a \<in> set (map perm ?sp)" by simp
  then obtain i where i: "i < ?n" "perm (?sp ! i) = a"
    by (auto simp: in_set_conv_nth)
  from b sortperm_perm_set [of ?n "strides fa"] have "b \<in> set (map perm ?sp)" by simp
  then obtain j where j: "j < ?n" "perm (?sp ! j) = b"
    by (auto simp: in_set_conv_nth)
  have "j < i"
  proof (rule ccontr)
    assume "\<not> j < i"
    then have "i \<le> j" by simp
    from sortperm_sorted [OF this j(1), of "strides fa"]
    have "\<bar>strides fa ! b\<bar> \<le> \<bar>strides fa ! a\<bar>"
      by (simp add: sortperm_stride i j)
    with lt show False by simp
  qed
  have f1: "\<forall>x\<in>set ?sp. 1 \<le> ?f x"
  proof
    fix x assume "x \<in> set ?sp"
    then have "perm x \<in> set (map perm ?sp)" by simp
    then have "perm x < ?n" unfolding sortperm_perm_set by simp
    with wf_array_length [OF wf] dims show "1 \<le> ?f x" by simp
  qed
  from \<open>j < i\<close> have "prod_list (map ?f (drop (Suc i) ?sp)) \<le> prod_list (map ?f (drop (Suc j) ?sp))"
    by (intro prod_list_drop_mono [OF f1]) simp
  then show ?thesis
    using new_maskna_strides_nth [OF wf el i(1)] new_maskna_strides_nth [OF wf el j(1)] i j el
    by simp
qed

lemma AllocateMaskNA_allocating:
  assumes "flags fa AND NPY_ARRAY_OWNMASKNA = 0"
    and "ownmaskna \<or> flags fa AND NPY_ARRAY_MASKNA = 0"
    and "fst (PyArray_AllocateMaskNA e w fa ownmaskna multina) = Inr ()"
  shows "PyArray_AllocateMaskNA e w fa ownmaskna multina = allocate_body e w fa multina"
    and "malloc_ret e \<noteq> 0"
proof -
  have "PyArray_AllocateMaskNA e w fa ownmaskna multina = allocate_body e w fa multina \<and>
      malloc_ret e \<noteq> 0"
  proof (cases rule: AllocateMaskNA_cases [of fa ownmaskna e w multina])
    case early
    with assms(1,2) show ?thesis by auto
  next
    case (failed err)
    with assms(3) show ?thesis by simp
  next
    case alloc
    then show ?thesis by simp
  qed
  then show "PyArray_AllocateMaskNA e w fa ownmaskna multina = allocate_body e w fa multina"
    and "malloc_ret e \<noteq> 0" by simp_all
qed

section \<open>The layout of a newly allocated mask\<close>

text \<open>
  C10, as stated, fails: on the 3 x 0 array \<open>ex_empty\<close> the loop multiplies the running
  stride by the extent 0, and the axis placed next gets the mask stride 0, which is not
  strictly positive.
\<close>

theorem AllocateMaskNA_zero_mask_stride:
  "wf_array ex_empty \<and> 1 \<le> nd ex_empty \<and>
   fst (PyArray_AllocateMaskNA env_ok world0 ex_empty False False) = Inr () \<and>
   maskna_strides (snd (snd (PyArray_AllocateMaskNA env_ok world0 ex_empty False False))) ! 0
     = 0"
  by code_simp

text \<open>
  C10, amended. For every well-formed array (in particular, the product of its non-zero
  extents fits \<^verbatim>\<open>npy_intp\<close>) of rank at least 1 on which the allocator allocates a
  new mask (it takes no early exit and succeeds), whatever the data strides
  are (negative, zero, overlapping): the mask element size is positive; every installed
  mask stride is a non-negative multiple of it, and strictly positive when no extent is
  zero; every logical element's mask cell lies within the \<open>PyArray_SIZE * elsize\<close> bytes
  of the buffer; and distinct logical elements have distinct cells (no aliasing).
\<close>

theorem AllocateMaskNA_mask_strides_packed:
  assumes wf: "wf_array fa" and nd: "1 \<le> nd fa"
    and no: "flags fa AND NPY_ARRAY_OWNMASKNA = 0"
      "ownmaskna \<or> flags fa AND NPY_ARRAY_MASKNA = 0"
    and ok: "fst (PyArray_AllocateMaskNA e w fa ownmaskna multina) = Inr ()"
  shows "(let fa' = snd (snd (PyArray_AllocateMaskNA e w fa ownmaskna multina));
              ms = maskna_strides fa'; el = elsize (the (maskna_dtype fa'))
          in 0 < el \<and> length ms = nat (nd fa) \<and>
             (\<forall>k<nat (nd fa). 0 \<le> ms ! k \<and> el dvd ms ! k) \<and>
             (list_all (\<lambda>d. 1 \<le> d) (dimensions fa) \<longrightarrow> (\<forall>k<nat (nd fa). 0 < ms ! k)) \<and>
             (\<forall>idx\<in>set (indices (shape_of fa)).
                0 \<le> offset ms idx \<and> offset ms idx + el \<le> PyArray_SIZE fa * el) \<and>
             inj_on (offset ms) (set (indices (shape_of fa))))"
proof -
  let ?n = "nat (nd fa)"
  note eq = AllocateMaskNA_allocating(1) [OF no ok]
  from ok have ok': "fst (allocate_body e w fa multina) = Inr ()" by (simp add: eq)
  from allocate_body_strides_place [OF wf nd ok'] obtain ms0 where
    ms0: "length ms0 = ?n"
    "maskna_strides (snd (snd (allocate_body e w fa multina))) =
       place (walk_order fa) (dimensions fa) 1 ms0" by blast
  let ?ms = "place (walk_order fa) (dimensions fa) 1 ms0"
  have el: "elsize (the (maskna_dtype (snd (snd (allocate_body e w fa multina))))) = 1"
    by (simp add: allocate_body_installed(2) [OF ok'])
  have wo: "distinct (walk_order fa)" "set (walk_order fa) = {..<length ms0}"
    "set (walk_order fa) = {..<length (dimensions fa)}"
    using ms0(1) wf by (simp_all add: walk_order_props wf_array_length)
  have len: "length (dimensions fa) = length ms0" "length ms0 = length (dimensions fa)"
    using ms0(1) wf by (simp_all add: wf_array_length)
  have a: "\<forall>k<?n. 0 \<le> ?ms ! k \<and> 1 dvd ?ms ! k"
    using place_nonneg [OF wo(1,2) len(1) wf_array_dims [OF wf], of 1] ms0(1) by simp
  have b: "list_all (\<lambda>d. 1 \<le> d) (dimensions fa) \<longrightarrow> (\<forall>k<?n. 0 < ?ms ! k)"
    using place_pos [OF wo(1,2) len(1), of 1] ms0(1) by (simp add: list_all_iff)
  have c: "\<forall>idx\<in>set (indices (shape_of fa)).
      0 \<le> offset ?ms idx \<and> offset ?ms idx + 1 \<le> PyArray_SIZE fa * 1"
    using place_offset_bounds [OF len(2) wo(1,3), of 1]
    by (simp add: set_indices wf_shape_of [OF wf] wf_SIZE [OF wf])
  have d: "inj_on (offset ?ms) (set (indices (shape_of fa)))"
    using place_offset_inj [OF len(2) wo(1,3), of 1]
    by (simp add: set_indices wf_shape_of [OF wf])
  from a b c d ms0(1) show ?thesis
    unfolding Let_def eq ms0(2) el by simp
qed


theorem AllocateMaskNA_mask_strides_packed_witness:
  "wf_array ex_nomask \<and> 1 \<le> nd ex_nomask \<and>
   flags ex_nomask AND NPY_ARRAY_OWNMASKNA = 0 \<and> flags ex_nomask AND NPY_ARRAY_MASKNA = 0 \<and>
   fst (PyArray_AllocateMaskNA env_ok world0 ex_nomask False False) = Inr () \<and>
   list_all (\<lambda>d. 1 \<le> d) (dimensions ex_nomask) \<and>
   maskna_strides (snd (snd (PyArray_AllocateMaskNA env_ok world0 ex_nomask False False))) =
     [3, 1] \<and>
   inj_on
     (offset (maskna_strides
        (snd (snd (PyArray_AllocateMaskNA env_ok world0 ex_nomask False False)))))
     (set (indices (shape_of ex_nomask)))"
proof -
  have h: "wf_array ex_nomask" "1 \<le> nd ex_nomask"
    "flags ex_nomask AND NPY_ARRAY_OWNMASKNA = 0" "flags ex_nomask AND NPY_ARRAY_MASKNA = 0"
    "fst (PyArray_AllocateMaskNA env_ok world0 ex_nomask False False) = Inr ()"
    by code_simp+
  have v: "list_all (\<lambda>d. 1 \<le> d) (dimensions ex_nomask)"
    "maskna_strides (snd (snd (PyArray_AllocateMaskNA env_ok world0 ex_nomask False False))) =
     [3, 1]"
    by code_simp+
  from AllocateMaskNA_mask_strides_packed [OF h(1,2,3) disjI2 [OF h(4)] h(5)]
  have "inj_on
     (offset (maskna_strides
        (snd (snd (PyArray_AllocateMaskNA env_ok world0 ex_nomask False False)))))
     (set (indices (shape_of ex_nomask)))"
    unfolding Let_def by blast
  with h v show ?thesis by blast
qed

text \<open>
  C1, amended. For every well-formed array (in particular, the product of its non-zero
  extents fits \<^verbatim>\<open>npy_intp\<close>) of rank at least 2 on which the allocator allocates a
  new mask: the sorted items are a permutation of the axes in descending
  order of absolute data stride; the axis of the last item (smallest data stride) gets
  the mask element size as its mask stride; the axis of item \<open>i\<close> gets the element size
  times the extents of the axes of the items after \<open>i\<close>, those placed before it; and when
  no extent is zero, an axis with a smaller absolute data stride never gets a larger mask
  stride.
\<close>

theorem AllocateMaskNA_mask_strides_follow_data:
  assumes wf: "wf_array fa" and nd: "1 < nd fa"
    and no: "flags fa AND NPY_ARRAY_OWNMASKNA = 0"
      "ownmaskna \<or> flags fa AND NPY_ARRAY_MASKNA = 0"
    and ok: "fst (PyArray_AllocateMaskNA e w fa ownmaskna multina) = Inr ()"
  shows "(let n = nat (nd fa); sp = PyArray_CreateSortedStridePerm n (strides fa);
              fa' = snd (snd (PyArray_AllocateMaskNA e w fa ownmaskna multina));
              ms = maskna_strides fa'; el = elsize (the (maskna_dtype fa'))
          in distinct (map perm sp) \<and> set (map perm sp) = {..<n} \<and>
             (\<forall>i<n. \<forall>j<n. i \<le> j \<longrightarrow>
                \<bar>strides fa ! perm (sp ! j)\<bar> \<le> \<bar>strides fa ! perm (sp ! i)\<bar>) \<and>
             ms ! perm (sp ! (n - 1)) = el \<and>
             (\<forall>i<n. ms ! perm (sp ! i) =
                el * prod_list (map (\<lambda>it. dimensions fa ! perm it) (drop (Suc i) sp))) \<and>
             (list_all (\<lambda>d. 1 \<le> d) (dimensions fa) \<longrightarrow>
                (\<forall>a<n. \<forall>b<n. \<bar>strides fa ! a\<bar> < \<bar>strides fa ! b\<bar> \<longrightarrow> ms ! a \<le> ms ! b)))"
proof -
  let ?n = "nat (nd fa)"
  let ?sp = "PyArray_CreateSortedStridePerm ?n (strides fa)"
  let ?d = "\<lparr>type_num = (if multina then NPY_MASK else NPY_BOOL), elsize = 1\<rparr>"
  let ?ms = "new_maskna_strides fa ?d"
  note eq = AllocateMaskNA_allocating(1) [OF no ok]
  from ok have ok': "fst (allocate_body e w fa multina) = Inr ()" by (simp add: eq)
  have ms: "maskna_strides (snd (snd (allocate_body e w fa multina))) = ?ms"
    using wf by (simp add: allocate_body_strides_nd [OF nd ok'] wf_array_def)
  have el: "elsize (the (maskna_dtype (snd (snd (allocate_body e w fa multina))))) = 1"
    by (simp add: allocate_body_installed(2) [OF ok'])
  have s: "\<forall>i<?n. \<forall>j<?n. i \<le> j \<longrightarrow>
      \<bar>strides fa ! perm (?sp ! j)\<bar> \<le> \<bar>strides fa ! perm (?sp ! i)\<bar>"
  proof (intro allI impI)
    fix i j assume "i < ?n" "j < ?n" "i \<le> j"
    with sortperm_sorted [of i j ?n "strides fa"] show
      "\<bar>strides fa ! perm (?sp ! j)\<bar> \<le> \<bar>strides fa ! perm (?sp ! i)\<bar>"
      by (simp add: sortperm_stride)
  qed
  have f: "\<forall>i<?n. ?ms ! perm (?sp ! i) =
      1 * prod_list (map (\<lambda>it. dimensions fa ! perm it) (drop (Suc i) ?sp))"
    using new_maskna_strides_nth [OF wf, of ?d] by simp
  from nd have "?n - 1 < ?n" by simp
  with f have l: "?ms ! perm (?sp ! (?n - 1)) = 1" by simp
  have m: "list_all (\<lambda>d. 1 \<le> d) (dimensions fa) \<longrightarrow>
      (\<forall>a<?n. \<forall>b<?n. \<bar>strides fa ! a\<bar> < \<bar>strides fa ! b\<bar> \<longrightarrow> ?ms ! a \<le> ?ms ! b)"
    using new_maskna_strides_mono [OF wf, of ?d]
    by (simp add: list_all_iff)
  from s f l m sortperm_perm_distinct [of ?n "strides fa"] sortperm_perm_set [of ?n "strides fa"]
  show ?thesis
    unfolding Let_def eq ms el by simp
qed

theorem AllocateMaskNA_mask_strides_follow_data_witness:
  "wf_array ex_fortran \<and> 1 < nd ex_fortran \<and>
   flags ex_fortran AND NPY_ARRAY_OWNMASKNA = 0 \<and> flags ex_fortran AND NPY_ARRAY_MASKNA = 0 \<and>
   fst (PyArray_AllocateMaskNA env_ok world0 ex_fortran False False) = Inr () \<and>
   list_all (\<lambda>d. 1 \<le> d) (dimensions ex_fortran) \<and>
   map perm (PyArray_CreateSortedStridePerm 3 (strides ex_fortran)) = [2, 1, 0] \<and>
   maskna_strides (snd (snd (PyArray_AllocateMaskNA env_ok world0 ex_fortran False False))) =
     [1, 2, 6] \<and>
   maskna_strides (snd (snd (PyArray_AllocateMaskNA env_ok world0 ex_fortran False False))) !
     perm (PyArray_CreateSortedStridePerm (nat (nd ex_fortran)) (strides ex_fortran) !
       (nat (nd ex_fortran) - 1)) =
   elsize (the (maskna_dtype
     (snd (snd (PyArray_AllocateMaskNA env_ok world0 ex_fortran False False)))))"
proof -
  have h: "wf_array ex_fortran" "1 < nd ex_fortran"
    "flags ex_fortran AND NPY_ARRAY_OWNMASKNA = 0" "flags ex_fortran AND NPY_ARRAY_MASKNA = 0"
    "fst (PyArray_AllocateMaskNA env_ok world0 ex_fortran False False) = Inr ()"
    by code_simp+
  have v: "list_all (\<lambda>d. 1 \<le> d) (dimensions ex_fortran)"
    "map perm (PyArray_CreateSortedStridePerm 3 (strides ex_fortran)) = [2, 1, 0]"
    "maskna_strides (snd (snd (PyArray_AllocateMaskNA env_ok world0 ex_fortran False False))) =
     [1, 2, 6]"
    by code_simp+
  from AllocateMaskNA_mask_strides_follow_data [OF h(1,2,3) disjI2 [OF h(4)] h(5)]
  have "maskna_strides (snd (snd (PyArray_AllocateMaskNA env_ok world0 ex_fortran False False))) !
     perm (PyArray_CreateSortedStridePerm (nat (nd ex_fortran)) (strides ex_fortran) !
       (nat (nd ex_fortran) - 1)) =
   elsize (the (maskna_dtype
     (snd (snd (PyArray_AllocateMaskNA env_ok world0 ex_fortran False False)))))"
    unfolding Let_def by blast
  with h v show ?thesis by blast
qed

text \<open>
  C1, as stated, fails in its last part: on \<open>ex_empty\<close> the second axis has the smaller
  data stride but the larger mask stride, since the first axis is placed after the axis
  of extent 0.
\<close>

theorem AllocateMaskNA_mask_order_reversed:
  "wf_array ex_empty \<and> 1 < nd ex_empty \<and>
   fst (PyArray_AllocateMaskNA env_ok world0 ex_empty False False) = Inr () \<and>
   \<bar>strides ex_empty ! 1\<bar> < \<bar>strides ex_empty ! 0\<bar> \<and>
   maskna_strides (snd (snd (PyArray_AllocateMaskNA env_ok world0 ex_empty False False))) ! 0 <
   maskna_strides (snd (snd (PyArray_AllocateMaskNA env_ok world0 ex_empty False False))) ! 1"
  by code_simp

section \<open>The contents of a newly allocated mask\<close>

lemma SIZE_rank0: "nd fa < 1 \<Longrightarrow> PyArray_SIZE fa = 1"
  by (simp add: PyArray_SIZE_def)

lemma allocate_body_mem_fill:
  assumes wf: "wf_array fa" and "flags fa AND NPY_ARRAY_MASKNA = 0"
  shows "mem (fst (snd (allocate_body e w fa multina))) =
           memset (malloc_ret e) 1 (PyArray_SIZE fa) (mem w)"
proof -
  consider "nd fa = 1" | "nd fa > 1" | "nd fa < 1" by linarith
  then show ?thesis
  proof cases
    case 1
    show ?thesis unfolding allocate_body_1d [OF 1] using assms(2)
      by (simp add: allocate_1d_def Let_def wf_SIZE_range(3) [OF wf])
  next
    case 2
    show ?thesis unfolding allocate_body_nd [OF 2] using assms(2)
      by (simp add: allocate_nd_def Let_def wf_SIZE_range(3) [OF wf])
  next
    case 3
    show ?thesis unfolding allocate_body_0d [OF 3] using assms(2)
      by (auto simp: allocate_0d_def Let_def memset_def SIZE_rank0 [OF 3])
  qed
qed

lemma in_shape_Nil [simp]: "in_shape idx [] \<longleftrightarrow> idx = []"
  by (simp add: in_shape_def)

lemma offset_Nil [simp]: "offset ms [] = 0"
  by (simp add: offset_def)

text \<open>
  The cells of the installed layout: inside the block, and distinct for distinct
  elements. Rank 0 has the single cell at offset 0.
\<close>

lemma allocate_body_cells:
  assumes wf: "wf_array fa" and ok: "fst (allocate_body e w fa multina) = Inr ()"
  shows "\<forall>idx. in_shape idx (dimensions fa) \<longrightarrow>
           0 \<le> offset (maskna_strides (snd (snd (allocate_body e w fa multina)))) idx \<and>
           offset (maskna_strides (snd (snd (allocate_body e w fa multina)))) idx <
             PyArray_SIZE fa"
    and "inj_on (offset (maskna_strides (snd (snd (allocate_body e w fa multina)))))
           {idx. in_shape idx (dimensions fa)}"
proof -
  let ?ms = "maskna_strides (snd (snd (allocate_body e w fa multina)))"
  have "(\<forall>idx. in_shape idx (dimensions fa) \<longrightarrow>
           0 \<le> offset ?ms idx \<and> offset ?ms idx < PyArray_SIZE fa) \<and>
        inj_on (offset ?ms) {idx. in_shape idx (dimensions fa)}"
  proof (cases "1 \<le> nd fa")
    case True
    from allocate_body_strides_place [OF wf True ok] obtain ms0 where
      ms0: "length ms0 = nat (nd fa)" "?ms = place (walk_order fa) (dimensions fa) 1 ms0"
      by blast
    have wo: "distinct (walk_order fa)" "set (walk_order fa) = {..<length (dimensions fa)}"
      using wf by (simp_all add: walk_order_props wf_array_length)
    have len: "length ms0 = length (dimensions fa)"
      using ms0(1) wf by (simp add: wf_array_length)
    have "0 \<le> offset ?ms idx \<and> offset ?ms idx < PyArray_SIZE fa"
      if "in_shape idx (dimensions fa)" for idx
      using place_offset_bounds [OF len wo, of 1 idx] that
      by (simp add: ms0(2) wf_SIZE [OF wf])
    moreover have "inj_on (offset ?ms) {idx. in_shape idx (dimensions fa)}"
      using place_offset_inj [OF len wo, of 1] by (simp add: ms0(2))
    ultimately show ?thesis by blast
  next
    case False
    with wf have "dimensions fa = []" "nd fa < 1" by (auto simp: wf_array_def)
    then show ?thesis by (simp add: SIZE_rank0 inj_on_def)
  qed
  then show "\<forall>idx. in_shape idx (dimensions fa) \<longrightarrow>
           0 \<le> offset ?ms idx \<and> offset ?ms idx < PyArray_SIZE fa"
    and "inj_on (offset ?ms) {idx. in_shape idx (dimensions fa)}"
    by blast+
qed

text \<open>
  C5, as stated, fails in one detail: the fill pattern is not all-bits-one. The fill is
  \<^verbatim>\<open>memset\<close> with the byte value 1, so a cell of a fresh mask holds 1 (bit pattern
  00000001) and not 255.
\<close>

theorem AllocateMaskNA_fill_byte_is_one:
  "fst (PyArray_AllocateMaskNA env_ok world0 ex_nomask False False) = Inr () \<and>
   mem (fst (snd (PyArray_AllocateMaskNA env_ok world0 ex_nomask False False)))
     (mask_cell (snd (snd (PyArray_AllocateMaskNA env_ok world0 ex_nomask False False))) [0, 0])
     = 1 \<and>
   mem (fst (snd (PyArray_AllocateMaskNA env_ok world0 ex_nomask False False)))
     (mask_cell (snd (snd (PyArray_AllocateMaskNA env_ok world0 ex_nomask False False))) [0, 0])
     \<noteq> 255"
  by code_simp

text \<open>
  C5, amended. For every well-formed array without a prior mask (it neither has nor owns
  a mask), a successful call leaves a mask in which the cell of every logical element
  holds 1, hence is available and not NA; every byte of the new buffer holds the value
  1, for the Boolean and the MultiNA representation alike; and the contract of the scan
  finds no NA in the array.
\<close>

theorem AllocateMaskNA_new_mask_all_available:
  assumes wf: "wf_array fa"
    and nomask: "flags fa AND NPY_ARRAY_MASKNA = 0" "flags fa AND NPY_ARRAY_OWNMASKNA = 0"
    and ok: "fst (PyArray_AllocateMaskNA e w fa ownmaskna multina) = Inr ()"
  shows "(let w' = fst (snd (PyArray_AllocateMaskNA e w fa ownmaskna multina));
              fa' = snd (snd (PyArray_AllocateMaskNA e w fa ownmaskna multina))
          in (\<forall>idx\<in>set (indices (shape_of fa)).
                mem w' (mask_cell fa' idx) = 1 \<and> \<not> is_NA w' fa' idx) \<and>
             (\<forall>a. maskna_data fa' \<le> a \<and>
                  a < maskna_data fa' + PyArray_SIZE fa * elsize (the (maskna_dtype fa')) \<longrightarrow>
                  mem w' a = 1) \<and>
             \<not> spec_ContainsNA w' fa')"
proof -
  let ?r = "allocate_body e w fa multina"
  let ?w = "fst (snd ?r)" and ?fa = "snd (snd ?r)"
  note eq = AllocateMaskNA_allocating(1) [OF nomask(2) disjI2 [OF nomask(1)] ok]
  from ok have ok': "fst ?r = Inr ()" by (simp add: eq)
  note inst = allocate_body_installed [OF ok']
  have m: "mem ?w = memset (malloc_ret e) 1 (PyArray_SIZE fa) (mem w)"
    by (rule allocate_body_mem_fill [OF wf nomask(1)])
  have block: "\<forall>a. maskna_data ?fa \<le> a \<and>
      a < maskna_data ?fa + PyArray_SIZE fa * elsize (the (maskna_dtype ?fa)) \<longrightarrow> mem ?w a = 1"
    by (simp add: inst m memset_def)
  have cell: "mem ?w (mask_cell ?fa idx) = 1" if "idx \<in> set (indices (shape_of fa))" for idx
  proof -
    from that have "in_shape idx (dimensions fa)"
      by (simp add: set_indices wf_shape_of [OF wf])
    with allocate_body_cells(1) [OF wf ok'] have
      "0 \<le> offset (maskna_strides ?fa) idx" "offset (maskna_strides ?fa) idx < PyArray_SIZE fa"
      by blast+
    then show ?thesis by (simp add: mask_cell_def inst m memset_def)
  qed
  then have cells: "\<forall>idx\<in>set (indices (shape_of fa)).
      mem ?w (mask_cell ?fa idx) = 1 \<and> \<not> is_NA ?w ?fa idx"
    by (simp add: is_NA_def)
  have "shape_of ?fa = shape_of fa" by (simp add: shape_of_def inst)
  with cells have "\<not> spec_ContainsNA ?w ?fa"
    by (simp add: spec_ContainsNA_def list_ex_iff)
  with cells block show ?thesis unfolding Let_def eq by blast
qed


theorem AllocateMaskNA_new_mask_all_available_witness:
  "wf_array ex_nomask \<and>
   flags ex_nomask AND NPY_ARRAY_MASKNA = 0 \<and> flags ex_nomask AND NPY_ARRAY_OWNMASKNA = 0 \<and>
   fst (PyArray_AllocateMaskNA env_ok world0 ex_nomask False False) = Inr () \<and>
   [1, 2] \<in> set (indices (shape_of ex_nomask)) \<and>
   mem (fst (snd (PyArray_AllocateMaskNA env_ok world0 ex_nomask False False)))
     (mask_cell (snd (snd (PyArray_AllocateMaskNA env_ok world0 ex_nomask False False))) [1, 2])
     = 1 \<and>
   \<not> spec_ContainsNA (fst (snd (PyArray_AllocateMaskNA env_ok world0 ex_nomask False False)))
     (snd (snd (PyArray_AllocateMaskNA env_ok world0 ex_nomask False False)))"
proof -
  have h: "wf_array ex_nomask"
    "flags ex_nomask AND NPY_ARRAY_MASKNA = 0" "flags ex_nomask AND NPY_ARRAY_OWNMASKNA = 0"
    "fst (PyArray_AllocateMaskNA env_ok world0 ex_nomask False False) = Inr ()"
    by code_simp+
  have i: "[1, 2] \<in> set (indices (shape_of ex_nomask))"
    by code_simp
  note t = AllocateMaskNA_new_mask_all_available [OF h, unfolded Let_def]
  note c = t [THEN conjunct1, THEN bspec, OF i, THEN conjunct1]
  note n = t [THEN conjunct2, THEN conjunct2]
  from h i c n show ?thesis by (intro conjI)
qed

section \<open>Migration of a borrowed mask\<close>

lemma cast_value_zero [simp]: "cast_value s d v = 0 \<longleftrightarrow> v = 0"
  by (simp add: cast_value_def)

lemma in_shape_single: "in_shape idx [d] \<longleftrightarrow> (\<exists>i. idx = [i] \<and> 0 \<le> i \<and> i < d)"
  by (auto simp: in_shape_def list_all2_Cons2)

lemma offset_single [simp]: "offset [s] [i] = i * s"
  by (simp add: offset_def)

text \<open>Rank 0: the new cell holds the byte of the old cell.\<close>

lemma migrate_0d:
  assumes "nd fa < 1"
  shows "mem (fst (snd (allocate_body e w fa multina)))
           (mask_cell (snd (snd (allocate_body e w fa multina))) []) =
         (if flags fa AND NPY_ARRAY_MASKNA \<noteq> 0 then mem w (mask_cell fa []) else 1)"
  unfolding allocate_body_0d [OF assms]
  by (simp add: allocate_0d_def Let_def mask_cell_def)

text \<open>
  Rank 1: the new cell holds the byte of the old cell when the old mask has stride 1
  (the byte copy), and the cast of the old cell otherwise.
\<close>

lemma migrate_1d:
  assumes wf: "wf_array fa"
    and nd: "nd fa = 1" and dims: "dimensions fa = [d]" and ms: "maskna_strides fa = [s]"
    and has: "flags fa AND NPY_ARRAY_MASKNA \<noteq> 0"
    and ok: "fst (allocate_body e w fa multina) = Inr ()"
    and fresh: "\<forall>i. 0 \<le> i \<and> i < d \<longrightarrow>
        mask_cell fa [i] < malloc_ret e \<or> malloc_ret e + d \<le> mask_cell fa [i]"
    and i: "0 \<le> i" "i < d"
  shows "mem (fst (snd (allocate_body e w fa multina)))
            (mask_cell (snd (snd (allocate_body e w fa multina))) [i]) =
         (if s = 1 then mem w (mask_cell fa [i])
          else cast_value (type_num (the (maskna_dtype fa)))
                 (if multina then NPY_MASK else NPY_BOOL) (mem w (mask_cell fa [i])))"
proof -
  let ?p = "malloc_ret e"
  let ?d = "\<lparr>type_num = (if multina then NPY_MASK else NPY_BOOL), elsize = 1\<rparr>"
  have size: "PyArray_SIZE fa = d" by (simp add: wf_SIZE [OF wf] dims)
  have wsize: "npy_intp_wrap d = d" using wf_SIZE_range(3) [OF wf] by (simp add: size)
  have cell': "mask_cell (snd (snd (allocate_body e w fa multina))) [i] = ?p + i"
    by (simp add: mask_cell_def allocate_body_installed(1) [OF ok]
          allocate_body_strides_1d [OF nd ok] ms)
  have cell: "mask_cell fa [i] = maskna_data fa + i * s"
    by (simp add: mask_cell_def ms)
  show ?thesis
  proof (cases "s = 1")
    case True
    have "mem (fst (snd (allocate_body e w fa multina))) =
        memcpy ?p (maskna_data fa) d (mem w)"
      unfolding allocate_body_1d [OF nd] using has True
      by (simp add: allocate_1d_def Let_def ms size wsize)
    with i show ?thesis by (simp add: cell' cell True memcpy_def)
  next
    case False
    let ?cast = "PyArray_CastRawArrays e d (maskna_data fa) ?p s 1 (maskna_dtype fa) ?d (mem w)"
    from ok has False obtain h where h: "?cast = Some h"
      "mem (fst (snd (allocate_body e w fa multina))) = h"
      unfolding allocate_body_1d [OF nd]
      by (auto simp: allocate_1d_def Let_def ms dims split: option.splits)
    from h(1) obtain sd where sd: "maskna_dtype fa = Some sd"
      and hh: "h = foldl (\<lambda>h i. h(?p + i * 1 :=
          cast_value (type_num sd) (type_num ?d) (h (maskna_data fa + i * s)))) (mem w) [0..d - 1]"
      by (auto simp: PyArray_CastRawArrays_def split: option.splits if_splits)
    have disj: "\<forall>x\<in>set [0..d - 1]. \<forall>y\<in>set [0..d - 1].
        ?p + x * 1 \<noteq> maskna_data fa + y * s"
    proof (intro ballI)
      fix x y assume x: "x \<in> set [0..d - 1]" and y: "y \<in> set [0..d - 1]"
      then have "0 \<le> y \<and> y < d" by simp
      with fresh have "mask_cell fa [y] < ?p \<or> ?p + d \<le> mask_cell fa [y]" by blast
      with x show "?p + x * 1 \<noteq> maskna_data fa + y * s"
        by (auto simp: mask_cell_def ms)
    qed
    have inj: "inj_on (\<lambda>i. ?p + i * 1) (set [0..d - 1])" by (simp add: inj_on_def)
    from i have "i \<in> set [0..d - 1]" by simp
    with copy_loop [OF disj inj, of "cast_value (type_num sd) (type_num ?d)" "mem w"]
    have "h (?p + i * 1) = cast_value (type_num sd) (type_num ?d) (mem w (maskna_data fa + i * s))"
      unfolding hh by blast
    with False show ?thesis by (simp add: h(2) cell' cell sd)
  qed
qed

text \<open>Rank 2 and above: the new cell holds the cast of the old cell.\<close>

lemma migrate_nd:
  assumes wf: "wf_array fa" and nd: "1 < nd fa"
    and has: "flags fa AND NPY_ARRAY_MASKNA \<noteq> 0"
    and ok: "fst (allocate_body e w fa multina) = Inr ()"
    and fresh: "\<forall>idx. in_shape idx (dimensions fa) \<longrightarrow>
        mask_cell fa idx < malloc_ret e \<or> malloc_ret e + PyArray_SIZE fa \<le> mask_cell fa idx"
    and i: "in_shape idx (dimensions fa)"
  shows "mem (fst (snd (allocate_body e w fa multina)))
            (mask_cell (snd (snd (allocate_body e w fa multina))) idx) =
         cast_value (type_num (the (maskna_dtype fa)))
           (if multina then NPY_MASK else NPY_BOOL) (mem w (mask_cell fa idx))"
proof -
  let ?p = "malloc_ret e"
  let ?d = "\<lparr>type_num = (if multina then NPY_MASK else NPY_BOOL), elsize = 1\<rparr>"
  let ?new = "new_maskna_strides fa ?d"
  let ?xs = "indices (take (nat (nd fa)) (dimensions fa))"
  have xs: "set ?xs = {idx. in_shape idx (dimensions fa)}"
    using wf by (simp add: set_indices wf_array_def)
  have str: "maskna_strides (snd (snd (allocate_body e w fa multina))) = ?new"
    using wf by (simp add: allocate_body_strides_nd [OF nd ok] wf_array_def)
  have cell': "mask_cell (snd (snd (allocate_body e w fa multina))) idx = ?p + offset ?new idx"
    by (simp add: mask_cell_def allocate_body_installed(1) [OF ok] str)
  let ?cast = "PyArray_CastRawNDimArrays e (nd fa) (dimensions fa) (maskna_data fa) ?p
      (maskna_strides fa) ?new (maskna_dtype fa) ?d (mem w)"
  from ok has obtain h where h: "?cast = Some h"
    "mem (fst (snd (allocate_body e w fa multina))) = h"
    unfolding allocate_body_nd [OF nd]
    by (auto simp: allocate_nd_def Let_def split: option.splits)
  from h(1) obtain sd where sd: "maskna_dtype fa = Some sd"
    and hh: "h = foldl (\<lambda>h idx. h(?p + offset ?new idx :=
        cast_value (type_num sd) (type_num ?d) (h (maskna_data fa + offset (maskna_strides fa) idx))))
        (mem w) ?xs"
    by (auto simp: PyArray_CastRawNDimArrays_def split: option.splits if_splits)
  note cells = allocate_body_cells [OF wf ok, unfolded str]
  have disj: "\<forall>x\<in>set ?xs. \<forall>y\<in>set ?xs.
      ?p + offset ?new x \<noteq> maskna_data fa + offset (maskna_strides fa) y"
  proof (intro ballI)
    fix x y assume "x \<in> set ?xs" and "y \<in> set ?xs"
    then have x: "in_shape x (dimensions fa)" and y: "in_shape y (dimensions fa)"
      by (simp_all add: xs)
    from fresh y have "mask_cell fa y < ?p \<or> ?p + PyArray_SIZE fa \<le> mask_cell fa y" by blast
    moreover from cells(1) x have "0 \<le> offset ?new x" "offset ?new x < PyArray_SIZE fa"
      by blast+
    ultimately show "?p + offset ?new x \<noteq> maskna_data fa + offset (maskna_strides fa) y"
      by (auto simp: mask_cell_def)
  qed
  have inj: "inj_on (\<lambda>idx. ?p + offset ?new idx) (set ?xs)"
    using cells(2) unfolding xs by (auto simp: inj_on_def)
  from i have "idx \<in> set ?xs" by (simp add: xs)
  with copy_loop [OF disj inj, of "cast_value (type_num sd) (type_num ?d)" "mem w"]
  have "h (?p + offset ?new idx) =
      cast_value (type_num sd) (type_num ?d) (mem w (maskna_data fa + offset (maskna_strides fa) idx))"
    unfolding hh by blast
  then show ?thesis unfolding cell' h(2) by (simp add: mask_cell_def sd)
qed

text \<open>
  What holds on every path of a migration. For a well-formed array with a borrowed mask,
  when a call with \<open>ownmaskna\<close> succeeds and the allocated block does not overlap the
  cells of the old mask: the array has and owns a mask of the requested element type in
  the allocated block, every logical element's cell lies in that block, and every
  logical element is NA after the call exactly when it was NA before.
\<close>

lemma AllocateMaskNA_migration_status:
  assumes wf: "wf_array fa"
    and has: "flags fa AND NPY_ARRAY_MASKNA \<noteq> 0"
    and noown: "flags fa AND NPY_ARRAY_OWNMASKNA = 0"
    and ok: "fst (PyArray_AllocateMaskNA e w fa True multina) = Inr ()"
    and fresh: "\<forall>idx\<in>set (indices (shape_of fa)).
        mask_cell fa idx < malloc_ret e \<or> malloc_ret e + PyArray_SIZE fa \<le> mask_cell fa idx"
  shows "(let w' = fst (snd (PyArray_AllocateMaskNA e w fa True multina));
              fa' = snd (snd (PyArray_AllocateMaskNA e w fa True multina))
          in flags fa' AND NPY_ARRAY_MASKNA \<noteq> 0 \<and> flags fa' AND NPY_ARRAY_OWNMASKNA \<noteq> 0 \<and>
             maskna_data fa' = malloc_ret e \<and> malloc_ret e \<noteq> 0 \<and>
             maskna_dtype fa' =
               Some \<lparr>type_num = (if multina then NPY_MASK else NPY_BOOL), elsize = 1\<rparr> \<and>
             (\<forall>idx\<in>set (indices (shape_of fa)).
                malloc_ret e \<le> mask_cell fa' idx \<and>
                mask_cell fa' idx < malloc_ret e + PyArray_SIZE fa \<and>
                is_NA w' fa' idx = is_NA w fa idx))"
proof -
  let ?r = "allocate_body e w fa multina"
  note al = AllocateMaskNA_allocating [OF noown disjI1 [OF TrueI] ok]
  note eq = al(1)
  from ok have ok': "fst ?r = Inr ()" by (simp add: eq)
  note inst = allocate_body_installed [OF ok']
  note fl = allocate_body_success_flags [OF ok']
  have fresh': "\<forall>idx. in_shape idx (dimensions fa) \<longrightarrow>
      mask_cell fa idx < malloc_ret e \<or> malloc_ret e + PyArray_SIZE fa \<le> mask_cell fa idx"
    using fresh by (simp add: set_indices wf_shape_of [OF wf])
  have cellwise: "malloc_ret e \<le> mask_cell (snd (snd ?r)) idx \<and>
      mask_cell (snd (snd ?r)) idx < malloc_ret e + PyArray_SIZE fa \<and>
      is_NA (fst (snd ?r)) (snd (snd ?r)) idx = is_NA w fa idx"
    if "idx \<in> set (indices (shape_of fa))" for idx
  proof -
    from that have idx: "in_shape idx (dimensions fa)"
      by (simp add: set_indices wf_shape_of [OF wf])
    from allocate_body_cells(1) [OF wf ok'] idx have
      "0 \<le> offset (maskna_strides (snd (snd ?r))) idx"
      "offset (maskna_strides (snd (snd ?r))) idx < PyArray_SIZE fa" by blast+
    then have inblock: "malloc_ret e \<le> mask_cell (snd (snd ?r)) idx"
      "mask_cell (snd (snd ?r)) idx < malloc_ret e + PyArray_SIZE fa"
      by (simp_all add: mask_cell_def inst)
    from wf have "0 \<le> nd fa" by (simp add: wf_array_def)
    then consider "nd fa = 0" | "nd fa = 1" | "1 < nd fa" by linarith
    then have "(mem (fst (snd ?r)) (mask_cell (snd (snd ?r)) idx) = 0) =
        (mem w (mask_cell fa idx) = 0)"
    proof cases
      case 1
      with wf idx have "idx = []" by (simp add: wf_array_def)
      with 1 has migrate_0d [of fa e w multina] show ?thesis by simp
    next
      case 2
      with wf obtain d where d: "dimensions fa = [d]"
        by (cases "dimensions fa") (auto simp: wf_array_def)
      from 2 wf obtain s where s: "maskna_strides fa = [s]"
        by (cases "maskna_strides fa") (auto simp: wf_array_def)
      from idx d obtain i where i: "idx = [i]" "0 \<le> i" "i < d"
        by (auto simp: in_shape_single)
      have size: "PyArray_SIZE fa = d" by (simp add: wf_SIZE [OF wf] d)
      have fr: "\<forall>i. 0 \<le> i \<and> i < d \<longrightarrow>
          mask_cell fa [i] < malloc_ret e \<or> malloc_ret e + d \<le> mask_cell fa [i]"
        using fresh' by (simp add: d in_shape_single size)
      from migrate_1d [OF wf 2 d s has ok' fr i(2,3)] i(1) show ?thesis by simp
    next
      case 3
      from migrate_nd [OF wf 3 has ok' fresh' idx] show ?thesis by simp
    qed
    with inblock show ?thesis by (simp add: is_NA_def)
  qed
  from fl inst(1,2) al(2) cellwise show ?thesis
    unfolding Let_def eq by blast
qed

text \<open>
  An instance: a row-major MultiNA mask of a column-major 2 x 2 array is migrated to an
  owned Boolean mask with strides 1 and 2; element (1, 0), whose old cell holds 2, gets
  a new cell that holds 1.
\<close>

lemma AllocateMaskNA_migration_status_example:
  "maskna_strides ex_transposed = [2, 1] \<and>
   maskna_strides (snd (snd (PyArray_AllocateMaskNA env_ok world0 ex_transposed True False))) =
     [1, 2] \<and>
   mem world0 (mask_cell ex_transposed [1, 0]) = 2 \<and>
   mem (fst (snd (PyArray_AllocateMaskNA env_ok world0 ex_transposed True False)))
     (mask_cell (snd (snd (PyArray_AllocateMaskNA env_ok world0 ex_transposed True False)))
        [1, 0]) = 1 \<and>
   is_NA (fst (snd (PyArray_AllocateMaskNA env_ok world0 ex_transposed True False)))
     (snd (snd (PyArray_AllocateMaskNA env_ok world0 ex_transposed True False))) [1, 0] =
   is_NA world0 ex_transposed [1, 0]"
proof -
  have h: "wf_array ex_transposed"
    "flags ex_transposed AND NPY_ARRAY_MASKNA \<noteq> 0"
    "flags ex_transposed AND NPY_ARRAY_OWNMASKNA = 0"
    "fst (PyArray_AllocateMaskNA env_ok world0 ex_transposed True False) = Inr ()"
    by code_simp+
  have f: "list_all (\<lambda>idx. mask_cell ex_transposed idx < malloc_ret env_ok \<or>
       malloc_ret env_ok + PyArray_SIZE ex_transposed \<le> mask_cell ex_transposed idx)
     (indices (shape_of ex_transposed))"
    by code_simp
  then have f': "\<forall>idx\<in>set (indices (shape_of ex_transposed)).
      mask_cell ex_transposed idx < malloc_ret env_ok \<or>
      malloc_ret env_ok + PyArray_SIZE ex_transposed \<le> mask_cell ex_transposed idx"
    by (simp only: list_all_iff)
  have i: "[1, 0] \<in> set (indices (shape_of ex_transposed))"
    by code_simp
  have v: "maskna_strides ex_transposed = [2, 1]"
    "maskna_strides (snd (snd (PyArray_AllocateMaskNA env_ok world0 ex_transposed True False))) =
     [1, 2]"
    "mem world0 (mask_cell ex_transposed [1, 0]) = 2"
    "mem (fst (snd (PyArray_AllocateMaskNA env_ok world0 ex_transposed True False)))
     (mask_cell (snd (snd (PyArray_AllocateMaskNA env_ok world0 ex_transposed True False)))
        [1, 0]) = 1"
    by code_simp+
  note t = AllocateMaskNA_migration_status [OF h f', unfolded Let_def]
  note c = t [THEN conjunct2, THEN conjunct2, THEN conjunct2, THEN conjunct2, THEN conjunct2,
    THEN bspec, OF i, THEN conjunct2, THEN conjunct2]
  from v c show ?thesis by (intro conjI)
qed


section \<open>Where the fast path and the cast agree\<close>

text \<open>
  When the cast keeps every byte (the element types agree, or the old mask is Boolean)
  and the new block does not overlap the old cells, the strided cast of a contiguous
  old mask yields the store that the byte copy yields.
\<close>

lemma CastRawArrays_contiguous_is_memcpy:
  assumes keep: "\<not> (type_num dd = NPY_BOOL \<and> type_num sd \<noteq> NPY_BOOL)"
    and "cast_ok e"
    and fresh: "src + d \<le> p \<or> p + d \<le> src"
  shows "PyArray_CastRawArrays e d src p 1 1 (Some sd) dd m = Some (memcpy p src d m)"
proof -
  let ?f = "cast_value (type_num sd) (type_num dd)"
  let ?h = "foldl (\<lambda>h i. h(p + i * 1 := ?f (h (src + i * 1)))) m [0..d - 1]"
  have disj: "\<forall>x\<in>set [0..d - 1]. \<forall>y\<in>set [0..d - 1]. p + x * 1 \<noteq> src + y * 1"
    using fresh by auto
  have inj: "inj_on (\<lambda>i. p + i * 1) (set [0..d - 1])" by (simp add: inj_on_def)
  note loop = copy_loop [OF disj inj, of ?f m]
  have id: "?f v = v" for v using keep by (auto simp: cast_value_def)
  have "?h a = memcpy p src d m a" for a
  proof (cases "p \<le> a \<and> a < p + d")
    case True
    then have "a - p \<in> set [0..d - 1]" by simp
    with loop have "?h (p + (a - p) * 1) = ?f (m (src + (a - p) * 1))" by blast
    with True show ?thesis by (simp add: memcpy_def id)
  next
    case False
    then have "a \<notin> (\<lambda>i. p + i * 1) ` set [0..d - 1]" by auto
    with loop have "?h a = m a" by blast
    with False show ?thesis by (auto simp: memcpy_def)
  qed
  then have "?h = memcpy p src d m" by (rule ext)
  with assms(2) show ?thesis by (simp add: PyArray_CastRawArrays_def)
qed

end
